theory Spec2Isabelle
  imports Main
begin

section \<open>Python values and dictionaries\<close>

text \<open>
  The frontend \<^verbatim>\<open>satosa/frontends/idpy_oidcop.py\<close> moves dynamically typed data
  between the proxy and the OpenID Connect provider library. A value is one of Python's
  plain data shapes; a dictionary with string keys is an association list in insertion
  order with distinct keys.

  Naming: a method whose Python name starts with an underscore, such as
  \<^verbatim>\<open>_load_cdb\<close>, is written with the prefix \<open>u_\<close> (\<open>u_load_cdb\<close>),
  since an Isabelle name starts with a letter. A local variable \<^verbatim>\<open>http_headers\<close>
  is written \<open>http_info\<close>, the name of the keyword it is passed as. Calls of the
  logger, which change nothing, are left out.
\<close>

datatype pyval =
    PNone
  | PBool bool
  | PInt int
  | PStr string
  | PList "pyval list"
  | PDict "(string \<times> pyval) list"

type_synonym pydict = "(string \<times> pyval) list"

text \<open>Python truth value testing, as used by \<^verbatim>\<open>if v\<close> and \<^verbatim>\<open>a or b\<close>.\<close>

fun truthy :: "pyval \<Rightarrow> bool" where
  "truthy PNone = False"
| "truthy (PBool b) = b"
| "truthy (PInt i) = (i \<noteq> 0)"
| "truthy (PStr s) = (s \<noteq> [])"
| "truthy (PList xs) = (xs \<noteq> [])"
| "truthy (PDict kvs) = (kvs \<noteq> [])"

text \<open>\<^verbatim>\<open>d.get(k)\<close>: the value, or \<^verbatim>\<open>None\<close> for a missing key.\<close>

definition dict_get :: "('k \<times> pyval) list \<Rightarrow> 'k \<Rightarrow> pyval" where
  "dict_get d k = (case map_of d k of None \<Rightarrow> PNone | Some v \<Rightarrow> v)"

text \<open>\<^verbatim>\<open>d[k] = v\<close>: an existing key keeps its position, a new key goes last.\<close>

fun dict_set :: "('k \<times> 'v) list \<Rightarrow> 'k \<Rightarrow> 'v \<Rightarrow> ('k \<times> 'v) list" where
  "dict_set [] k v = [(k, v)]"
| "dict_set (p # ps) k v = (if fst p = k then (k, v) # ps else p # dict_set ps k v)"

text \<open>\<^verbatim>\<open>dict(pairs)\<close>: later pairs overwrite earlier ones.\<close>

definition dict_of :: "('k \<times> 'v) list \<Rightarrow> ('k \<times> 'v) list" where
  "dict_of kvs = foldl (\<lambda>d (k, v). dict_set d k v) [] kvs"

text \<open>
  \<^verbatim>\<open>str.lower()\<close>. A character is a code point below 256: the capital letters are
  \<open>A\<close> to \<open>Z\<close> and the code points 192 to 222 other than the multiplication sign
  215, and each has its small letter 32 places further.
\<close>

definition lower_char :: "char \<Rightarrow> char" where
  "lower_char c =
     (let n = (of_char c :: nat)
      in if (65 \<le> n \<and> n \<le> 90) \<or> (192 \<le> n \<and> n \<le> 222 \<and> n \<noteq> 215)
         then char_of (n + 32) else c)"

definition lower :: "string \<Rightarrow> string" where
  "lower s = map lower_char s"

section \<open>Exceptions and results\<close>

text \<open>
  The exceptions the frontend raises or catches; a subclass counts as its class.
  \<open>Exception\<close> stands for any other subclass of Python's \<^verbatim>\<open>Exception\<close>.
  Each carries what \<^verbatim>\<open>str(err)\<close> prints; for a \<^verbatim>\<open>KeyError\<close> that is the
  \<^verbatim>\<open>repr\<close> of the key, for a \<^verbatim>\<open>NameError\<close> it is built from the name.
\<close>

datatype exn =
    InvalidClient string
  | UnknownClient string
  | UnAuthorizedClient string
  | NameError string
  | KeyError string
  | IndexError string
  | TypeError string
  | AttributeError string
  | ValueError string
  | NotImplementedError
  | Exception string

fun str_exn :: "exn \<Rightarrow> string" where
  "str_exn (InvalidClient m) = m"
| "str_exn (UnknownClient m) = m"
| "str_exn (UnAuthorizedClient m) = m"
| "str_exn (NameError n) = ''name '' @ [CHR 0x27] @ n @ [CHR 0x27] @ '' is not defined''"
| "str_exn (KeyError k) = k"
| "str_exn (IndexError m) = m"
| "str_exn (TypeError m) = m"
| "str_exn (AttributeError m) = m"
| "str_exn (ValueError m) = m"
| "str_exn NotImplementedError = []"
| "str_exn (Exception m) = m"

text \<open>
  A method runs on the mutable state of the application and either returns or raises;
  the state it leaves behind is kept in both cases, as Python keeps every assignment
  made before an exception.
\<close>

definition seq ::
  "('s \<Rightarrow> (exn + 'a) \<times> 's) \<Rightarrow> ('a \<Rightarrow> 's \<Rightarrow> (exn + 'b) \<times> 's) \<Rightarrow> 's \<Rightarrow> (exn + 'b) \<times> 's" where
  "seq m f s = (case m s of (Inl e, s') \<Rightarrow> (Inl e, s') | (Inr a, s') \<Rightarrow> f a s')"

definition return :: "'a \<Rightarrow> 's \<Rightarrow> (exn + 'a) \<times> 's" where
  "return a s = (Inr a, s)"

definition raise :: "exn \<Rightarrow> 's \<Rightarrow> (exn + 'a) \<times> 's" where
  "raise e s = (Inl e, s)"

definition lift :: "exn + 'a \<Rightarrow> 's \<Rightarrow> (exn + 'a) \<times> 's" where
  "lift r s = (r, s)"

text \<open>
  A name or key between single quotes, as Python prints it in a message (for a text
  without quotes or escapes in it), and the name of the type of a value.
\<close>

definition quoted :: "string \<Rightarrow> string" where
  "quoted k = [CHR 0x27] @ k @ [CHR 0x27]"

fun type_name :: "pyval \<Rightarrow> string" where
  "type_name PNone = ''NoneType''"
| "type_name (PBool b) = ''bool''"
| "type_name (PInt i) = ''int''"
| "type_name (PStr s) = ''str''"
| "type_name (PList xs) = ''list''"
| "type_name (PDict kvs) = ''dict''"

text \<open>The decimal text of an integer, \<^verbatim>\<open>repr(i)\<close>.\<close>

fun digits :: "nat \<Rightarrow> string" where
  "digits n =
     (if n < 10 then [char_of (48 + n)]
      else digits (n div 10) @ [char_of (48 + n mod 10)])"

definition repr_int :: "int \<Rightarrow> string" where
  "repr_int i = (if i < 0 then ''-'' @ digits (nat (- i)) else digits (nat i))"

text \<open>\<^verbatim>\<open>d[k]\<close> on a dictionary: \<^verbatim>\<open>KeyError\<close> for a missing key.\<close>

definition dict_item :: "(string \<times> 'v) list \<Rightarrow> string \<Rightarrow> exn + 'v" where
  "dict_item d k = (case map_of d k of None \<Rightarrow> Inl (KeyError (quoted k)) | Some v \<Rightarrow> Inr v)"

text \<open>\<^verbatim>\<open>v[0]\<close> on a value.\<close>

fun index0 :: "pyval \<Rightarrow> exn + pyval" where
  "index0 (PList (x # xs)) = Inr x"
| "index0 (PList []) = Inl (IndexError ''list index out of range'')"
| "index0 (PStr (c # cs)) = Inr (PStr [c])"
| "index0 (PStr []) = Inl (IndexError ''string index out of range'')"
| "index0 (PDict d) = Inl (KeyError ''0'')"
| "index0 v = Inl (TypeError (quoted (type_name v) @ '' object is not subscriptable''))"

section \<open>The request context\<close>

text \<open>\<^verbatim>\<open>satosa.internal.InternalData\<close>, with the fields the frontend reads and writes.\<close>

record InternalData =
  subject_type :: pyval
  requester :: pyval
  requester_name :: pyval
  attributes :: pyval
  subject_id :: pyval

text \<open>
  \<^verbatim>\<open>ExtendedContext\<close>. \<open>request\<close> is the dictionary of request parameters.
  \<open>http_headers\<close> and \<open>request_authorization\<close> are read with
  \<^verbatim>\<open>getattr(context, name, None)\<close>; \<open>None\<close> stands for a missing attribute.
  \<open>state\<close> maps a frontend name to what the frontend stored under it, a dictionary
  from a key (\<^verbatim>\<open>"oidc_request"\<close>) to a request.
\<close>

record ExtendedContext =
  request :: "(string \<times> string) list"
  http_headers :: "(string \<times> string) list option"
  request_method :: string
  request_uri :: string
  request_authorization :: "string option"
  state :: "(string \<times> (string \<times> (string \<times> string) list) list) list"
  target_backend :: "string option"
  internal_data :: "InternalData option"

definition request_dict :: "(string \<times> string) list \<Rightarrow> pydict" where
  "request_dict r = map (\<lambda>(k, v). (k, PStr v)) r"

definition IGNORED_HEADERS :: "string list" where
  "IGNORED_HEADERS = [''cookie'', ''user-agent'']"

text \<open>
  \<^verbatim>\<open>OidcOpUtils._get_http_headers\<close>. The test against \<open>IGNORED_HEADERS\<close> is on the
  header name as received, the key of the result is the lowered name.
\<close>

definition u_get_http_headers :: "ExtendedContext \<Rightarrow> pydict" where
  "u_get_http_headers ctx =
     (let http_headers0 = [];
          http_headers1 =
            (case http_headers ctx of
               None \<Rightarrow> http_headers0
             | Some hs \<Rightarrow>
                 if hs = [] then http_headers0
                 else [(''headers'',
                         PDict (dict_of (map (\<lambda>(k, v). (lower k, PStr v))
                                  (filter (\<lambda>(k, v). k \<notin> set IGNORED_HEADERS) hs)))),
                       (''method'', PStr (request_method ctx)),
                       (''url'', PStr (request_uri ctx))])
      in (case request_authorization ctx of
            None \<Rightarrow> http_headers1
          | Some a \<Rightarrow>
              if a = [] then http_headers1
              else dict_set http_headers1 ''headers''
                     (PDict [(''authorization'', PStr a)])))"

section \<open>The application state and its collaborators\<close>

text \<open>
  What outlives a request: the client database \<open>cdb\<close> and the session manager's
  in-memory database \<open>sman\<close> of the provider library's endpoint context, the claims
  loaded into its \<open>userinfo\<close>, and the durable \<open>storage\<close> behind
  \<^verbatim>\<open>self.app.storage\<close>.
\<close>

record 'st app =
  cdb :: "(string \<times> pyval) list"
  sman :: pydict
  userinfo :: pydict
  storage :: 'st

datatype endpoint = Authorization | Token | Userinfo | ProviderConfig

text \<open>
  A parsed request is a message of the provider library: a plain message with its
  fields, or an \<^verbatim>\<open>AuthorizationErrorResponse\<close>.
\<close>

datatype parsed = Msg pydict | AuthorizationErrorResponse pydict

text \<open>
  What the frontend hands back: a \<^verbatim>\<open>JsonResponse\<close> with its message and status
  (\<open>None\<close>: the constructor's default), a \<^verbatim>\<open>Response\<close>, a \<^verbatim>\<open>SeeOther\<close>
  redirect, or the bare dictionary of an error message.
\<close>

datatype response =
    JsonResponse pyval "string option"
  | Response pyval
  | SeeOther string
  | Dict pydict

text \<open>
  \<^verbatim>\<open>_process_request\<close> returns what the endpoint made of the request, or the
  \<^verbatim>\<open>JsonResponse\<close> it built for an error.
\<close>

datatype processed = ProcArgs pydict | ProcJson response

text \<open>
  \<^verbatim>\<open>_handle_authn_request\<close> returns the internal request, with the context as it
  left it, or something that is not an \<^verbatim>\<open>InternalData\<close>.
\<close>

datatype authn_result = Internal InternalData ExtendedContext | NotInternal response

text \<open>
  \<^verbatim>\<open>endpoint.authz_part2\<close> returns a \<^verbatim>\<open>ResponseMessage\<close>, or a dictionary of
  which the frontend reads the \<^verbatim>\<open>"response_args"\<close> entry (\<open>None\<close>: no such key).
\<close>

datatype authz_args = ResponseMessage pydict | AuthzArgs "parsed option"

text \<open>
  The frontend object: its configuration and the code it calls that is not part of
  \<^verbatim>\<open>idpy_oidcop.py\<close> (the storage, the provider library's endpoints and session
  manager, the message classes, the proxy's callback and converter). Each is a
  parameter; one that can touch the application state gets it and returns it.
\<close>

record 'st frontend =
  name :: string
  claims_supported :: pyval
  default_target_backend :: string
  response_placement :: "endpoint \<Rightarrow> pyval"
  storage_get_client_by_id :: "string \<Rightarrow> 'st app \<Rightarrow> (exn + pyval) \<times> 'st app"
  storage_load_session_from_db ::
    "parsed \<Rightarrow> pydict \<Rightarrow> 'st app \<Rightarrow> (exn + pydict) \<times> 'st app"
  storage_store_session_to_db :: "pydict option \<Rightarrow> 'st app \<Rightarrow> (exn + unit) \<times> 'st app"
  storage_get_claims_from_sid :: "string \<Rightarrow> 'st app \<Rightarrow> (exn + pydict) \<times> 'st app"
  endpoint_parse_request ::
    "endpoint \<Rightarrow> (string \<times> string) list \<Rightarrow> pydict \<Rightarrow> 'st app \<Rightarrow> (exn + parsed) \<times> 'st app"
  endpoint_process_request ::
    "endpoint \<Rightarrow> parsed \<Rightarrow> pydict \<Rightarrow> 'st app \<Rightarrow> (exn + pydict) \<times> 'st app"
  endpoint_do_response ::
    "endpoint \<Rightarrow> parsed \<Rightarrow> pydict \<Rightarrow> 'st app \<Rightarrow> (exn + pydict) \<times> 'st app"
  endpoint_authz_part2 ::
    "pyval \<Rightarrow> pyval \<Rightarrow> parsed \<Rightarrow> pyval \<Rightarrow> 'st app \<Rightarrow> (exn + authz_args) \<times> 'st app"
  authn_broker_get_method_by_id :: "string \<Rightarrow> 'st app \<Rightarrow> (exn + pyval) \<times> 'st app"
  session_manager_create_session ::
    "pyval \<Rightarrow> parsed \<Rightarrow> pyval \<Rightarrow> pyval \<Rightarrow> pyval \<Rightarrow> 'st app \<Rightarrow> (exn + pyval) \<times> 'st app"
  auth_req_callback_func ::
    "ExtendedContext \<Rightarrow> InternalData \<Rightarrow> 'st app \<Rightarrow> (exn + response) \<times> 'st app"
  AccessTokenRequest :: "parsed \<Rightarrow> exn + parsed"
  AccessTokenRequest_from_urlencoded :: "(string \<times> string) list \<Rightarrow> exn + pydict"
  AuthorizationRequest_from_urlencoded :: "(string \<times> string) list \<Rightarrow> exn + pydict"
  create_authn_event :: "pyval \<Rightarrow> string \<Rightarrow> pyval"
  converter_to_internal_filter :: "string \<Rightarrow> pyval \<Rightarrow> pyval"
  converter_from_internal :: "string \<Rightarrow> pyval \<Rightarrow> pydict"
  combine_claim_values :: "pydict \<Rightarrow> pydict"
  urlencode :: "pydict \<Rightarrow> string"
  to_json :: "pydict \<Rightarrow> pyval"

section \<open>\<^verbatim>\<open>OidcOpUtils\<close>\<close>

text \<open>
  \<^verbatim>\<open>_load_cdb\<close>. The argument \<open>client_id\<close> is \<open>None\<close> when the caller leaves
  it out; \<^verbatim>\<open>client_id or context.request.get("client_id")\<close> then reads the request.
\<close>

definition u_load_cdb ::
  "'st frontend \<Rightarrow> ExtendedContext \<Rightarrow> string option \<Rightarrow> 'st app \<Rightarrow> (exn + pyval) \<times> 'st app" where
  "u_load_cdb self ctx client_id =
     (let client_id =
            (case client_id of
               Some c \<Rightarrow> if c \<noteq> [] then Some c else map_of (request ctx) ''client_id''
             | None \<Rightarrow> map_of (request ctx) ''client_id'');
          msg = ''Client '' @ (case client_id of None \<Rightarrow> ''None'' | Some c \<Rightarrow> c) @ '' not found!''
      in (case client_id of
            Some c \<Rightarrow>
              if c \<noteq> [] then
                seq (storage_get_client_by_id self c)
                  (\<lambda>client s. (Inr client, s\<lparr>cdb := [(c, client)]\<rparr>))
              else (\<lambda>s. (Inl (InvalidClient msg), s\<lparr>cdb := []\<rparr>))
          | None \<Rightarrow> (\<lambda>s. (Inl (InvalidClient msg), s\<lparr>cdb := []\<rparr>))))"

definition store_session_to_db ::
  "'st frontend \<Rightarrow> pydict option \<Rightarrow> 'st app \<Rightarrow> (exn + unit) \<times> 'st app" where
  "store_session_to_db self claims = storage_store_session_to_db self claims"

definition load_session_from_db ::
  "'st frontend \<Rightarrow> parsed \<Rightarrow> pydict \<Rightarrow> 'st app \<Rightarrow> (exn + pydict) \<times> 'st app" where
  "load_session_from_db self parse_req http_info =
     storage_load_session_from_db self parse_req http_info"

text \<open>
  \<^verbatim>\<open>_flush_endpoint_context_memory\<close>: \<^verbatim>\<open>sman.flush()\<close> frees the memory from
  any loaded session.
\<close>

definition u_flush_endpoint_context_memory :: "'st app \<Rightarrow> (exn + unit) \<times> 'st app" where
  "u_flush_endpoint_context_memory s = (Inr (), s\<lparr>sman := []\<rparr>)"

text \<open>
  \<^verbatim>\<open>_load_session\<close>. Its last line reads \<^verbatim>\<open>sdata["client_id"]\<close>, and no name
  \<^verbatim>\<open>sdata\<close> is bound in the method or in the module: evaluating the argument
  raises \<^verbatim>\<open>NameError\<close> before \<^verbatim>\<open>_load_cdb\<close> is called.
\<close>

definition u_load_session ::
  "'st frontend \<Rightarrow> parsed \<Rightarrow> endpoint \<Rightarrow> pydict \<Rightarrow> 'st app \<Rightarrow> (exn + unit) \<times> 'st app" where
  "u_load_session self parse_req endpoint http_info =
     seq u_flush_endpoint_context_memory (\<lambda>_.
     seq (load_session_from_db self parse_req http_info) (\<lambda>data.
       if truthy (dict_get data ''client_id'')
       then raise (NameError ''sdata'')
       else return ()))"

text \<open>\<^verbatim>\<open>_parse_request\<close>: an empty \<open>http_headers\<close> is computed again.\<close>

definition u_parse_request ::
  "'st frontend \<Rightarrow> endpoint \<Rightarrow> ExtendedContext \<Rightarrow> pydict option \<Rightarrow>
     'st app \<Rightarrow> (exn + parsed) \<times> 'st app" where
  "u_parse_request self endpoint ctx http_info =
     (let http_info =
            (case http_info of
               Some h \<Rightarrow> if h \<noteq> [] then h else u_get_http_headers ctx
             | None \<Rightarrow> u_get_http_headers ctx)
      in endpoint_parse_request self endpoint (request ctx) http_info)"

definition send_response :: "'r \<Rightarrow> 'st app \<Rightarrow> (exn + 'r) \<times> 'st app" where
  "send_response response = seq u_flush_endpoint_context_memory (\<lambda>_. return response)"

definition error_body :: "string \<Rightarrow> exn \<Rightarrow> pyval" where
  "error_body code err =
     PDict [(''error'', PStr code), (''error_description'', PStr (str_exn err))]"

fun is_client_error :: "exn \<Rightarrow> bool" where
  "is_client_error (InvalidClient m) = True"
| "is_client_error (UnknownClient m) = True"
| "is_client_error (UnAuthorizedClient m) = True"
| "is_client_error e = False"

text \<open>
  \<^verbatim>\<open>_process_request\<close>. \<^verbatim>\<open>isinstance(endpoint, Token)\<close> is the test that the
  endpoint is the token endpoint.
\<close>

definition u_process_request ::
  "'st frontend \<Rightarrow> endpoint \<Rightarrow> ExtendedContext \<Rightarrow> parsed \<Rightarrow> pydict \<Rightarrow>
     'st app \<Rightarrow> (exn + processed) \<times> 'st app" where
  "u_process_request self endpoint ctx parse_req http_info =
     (case (if endpoint = Token then AccessTokenRequest self parse_req else Inr parse_req) of
        Inl err \<Rightarrow>
          send_response
            (ProcJson (JsonResponse (error_body ''invalid_request'' err) (Some ''400'')))
      | Inr req \<Rightarrow>
          (\<lambda>s. case endpoint_process_request self endpoint req http_info s of
                 (Inr proc_req, s') \<Rightarrow> (Inr (ProcArgs proc_req), s')
               | (Inl err, s') \<Rightarrow>
                   if is_client_error err then
                     send_response
                       (ProcJson (JsonResponse (error_body ''unauthorized_client'' err)
                                   (Some ''400''))) s'
                   else
                     send_response
                       (ProcJson (JsonResponse (error_body ''invalid_request'' err)
                                   (Some ''400''))) s'))"

text \<open>
  \<^verbatim>\<open>handle_error\<close>. An exception object is true, so \<^verbatim>\<open>excp or ""\<close> is the
  exception when one is given.
\<close>

definition handle_error ::
  "string option \<Rightarrow> exn option \<Rightarrow> string \<Rightarrow> 'st app \<Rightarrow> (exn + response) \<times> 'st app" where
  "handle_error msg excp status =
     (let umsg = ''Something went wrong ... '' @ (case excp of None \<Rightarrow> [] | Some e \<Rightarrow> str_exn e);
          msg = (case msg of Some m \<Rightarrow> if m \<noteq> [] then m else umsg | None \<Rightarrow> umsg)
      in send_response (JsonResponse (PStr msg) (Some status)))"

section \<open>\<^verbatim>\<open>OidcOpEndpoints\<close>\<close>

text \<open>
  The end of the token and userinfo endpoints, in the order of each: the token endpoint
  stores the session and then reads \<^verbatim>\<open>proc_req["response_args"]\<close>, the userinfo
  endpoint reads it first.
\<close>

definition token_endpoint ::
  "'st frontend \<Rightarrow> ExtendedContext \<Rightarrow> 'st app \<Rightarrow> (exn + response) \<times> 'st app" where
  "token_endpoint self ctx =
     (let endpoint = Token;
          http_info = u_get_http_headers ctx
      in seq (lift (AccessTokenRequest_from_urlencoded self (request ctx))) (\<lambda>raw_request.
         seq (u_load_cdb self ctx None) (\<lambda>_.
         seq (u_load_session self (Msg raw_request) endpoint http_info) (\<lambda>_.
         seq (u_parse_request self endpoint ctx (Some http_info)) (\<lambda>parse_req.
         seq (u_process_request self endpoint ctx parse_req http_info) (\<lambda>proc_req.
           case proc_req of
             ProcJson r \<Rightarrow> send_response r
           | ProcArgs a \<Rightarrow>
               seq (store_session_to_db self None) (\<lambda>_.
               seq (lift (dict_item a ''response_args'')) (\<lambda>v.
                 send_response (JsonResponse v None)))))))))"

text \<open>
  The loop of the userinfo endpoint over \<^verbatim>\<open>sman.dump()["db"].items()\<close>: the key
  of the first entry whose value starts with the name of the grant class, \<open>None\<close> when
  the loop ends without a \<^verbatim>\<open>break\<close>.
\<close>

fun find_grant_sid :: "pydict \<Rightarrow> exn + string option" where
  "find_grant_sid [] = Inr None"
| "find_grant_sid ((k, v) # kvs) =
     (case index0 v of
        Inl e \<Rightarrow> Inl e
      | Inr x \<Rightarrow>
          if x = PStr ''oidcop.session.grant.Grant'' then Inr (Some k)
          else find_grant_sid kvs)"

definition userinfo_endpoint ::
  "'st frontend \<Rightarrow> ExtendedContext \<Rightarrow> 'st app \<Rightarrow> (exn + response) \<times> 'st app" where
  "userinfo_endpoint self ctx =
     (let endpoint = Userinfo;
          http_info = u_get_http_headers ctx
      in seq (u_load_session self (Msg []) endpoint http_info) (\<lambda>_.
         seq (u_parse_request self endpoint ctx (Some http_info)) (\<lambda>parse_req.
         seq (\<lambda>s. lift (find_grant_sid (sman s)) s) (\<lambda>sid.
         seq (case sid of
                Some k \<Rightarrow> storage_get_claims_from_sid self k
              | None \<Rightarrow> return []) (\<lambda>claims.
         seq (\<lambda>s. (Inr (), s\<lparr>userinfo := claims\<rparr>)) (\<lambda>_.
         seq (u_process_request self endpoint ctx parse_req http_info) (\<lambda>proc_req.
         seq (\<lambda>s. (Inr (), s\<lparr>userinfo := []\<rparr>)) (\<lambda>_.
           case proc_req of
             ProcJson r \<Rightarrow> send_response r
           | ProcArgs a \<Rightarrow>
               seq (lift (dict_item a ''response_args'')) (\<lambda>v.
               seq (store_session_to_db self None) (\<lambda>_.
                 send_response (JsonResponse v None)))))))))))"

section \<open>\<^verbatim>\<open>OidcOpFrontend\<close>\<close>

text \<open>
  \<^verbatim>\<open>cdb[client_id]\<close> for the value \<^verbatim>\<open>parse_req.get("client_id")\<close>: the keys of
  \<open>cdb\<close> are strings, a list or a dictionary is not hashable.
\<close>

fun cdb_item :: "(string \<times> pyval) list \<Rightarrow> pyval \<Rightarrow> exn + pyval" where
  "cdb_item d (PStr c) = dict_item d c"
| "cdb_item d (PList xs) = Inl (TypeError (''unhashable type: '' @ quoted ''list''))"
| "cdb_item d (PDict kvs) = Inl (TypeError (''unhashable type: '' @ quoted ''dict''))"
| "cdb_item d PNone = Inl (KeyError ''None'')"
| "cdb_item d (PBool b) = Inl (KeyError (if b then ''True'' else ''False''))"
| "cdb_item d (PInt i) = Inl (KeyError (repr_int i))"

text \<open>\<^verbatim>\<open>_client_conf.get(key, default)\<close> on what \<open>cdb\<close> holds for the client.\<close>

fun conf_get :: "pyval \<Rightarrow> string \<Rightarrow> pyval \<Rightarrow> exn + pyval" where
  "conf_get (PDict d) k dflt = Inr (case map_of d k of None \<Rightarrow> dflt | Some v \<Rightarrow> v)"
| "conf_get v k dflt =
     Inl (AttributeError (quoted (type_name v) @ '' object has no attribute '' @ quoted ''get''))"

text \<open>
  \<^verbatim>\<open>_handle_authn_request\<close>. The call of \<^verbatim>\<open>handle_error\<close> in the
  \<^verbatim>\<open>except\<close> branch is a statement: its response is dropped and the method goes on.
\<close>

definition u_handle_authn_request ::
  "'st frontend \<Rightarrow> ExtendedContext \<Rightarrow> endpoint \<Rightarrow> 'st app \<Rightarrow> (exn + authn_result) \<times> 'st app" where
  "u_handle_authn_request self ctx endpoint =
     (let http_info = u_get_http_headers ctx
      in seq (u_load_cdb self ctx None) (\<lambda>_.
         seq (u_parse_request self endpoint ctx (Some http_info)) (\<lambda>parse_req.
           case parse_req of
             AuthorizationErrorResponse d \<Rightarrow>
               seq (send_response (Dict d)) (\<lambda>r. return (NotInternal r))
           | Msg m \<Rightarrow>
               seq (u_load_session self parse_req endpoint http_info) (\<lambda>_.
               seq (u_process_request self endpoint ctx parse_req http_info) (\<lambda>proc_req.
                 case proc_req of
                   ProcJson r \<Rightarrow> return (NotInternal r)
                 | ProcArgs a \<Rightarrow>
                     seq (\<lambda>s. case endpoint_do_response self endpoint
                                     (Msg (request_dict (request ctx))) a s of
                                 (Inr info, s') \<Rightarrow> (Inr (), s')
                               | (Inl excp, s') \<Rightarrow>
                                   (Inr (), snd (handle_error None (Some excp) ''403'' s')))
                       (\<lambda>_.
                     let ctx1 = ctx\<lparr>state := dict_set (state ctx) (name self)
                                   [(''oidc_request'', request ctx)]\<rparr>;
                         client_id = dict_get m ''client_id''
                     in seq (\<lambda>s. lift (cdb_item (cdb s) client_id) s) (\<lambda>client_conf.
                        seq (lift (conf_get client_conf ''client_name'' PNone)) (\<lambda>client_name.
                        seq (lift (conf_get client_conf ''subject_type'' (PStr ''pairwise'')))
                          (\<lambda>subj_type.
                        let req_name =
                              (if truthy client_name
                               then PList [PDict [(''lang'', PStr ''en''), (''text'', client_name)]]
                               else PNone);
                            internal_req =
                              \<lparr>subject_type = subj_type, requester = client_id,
                               requester_name = req_name,
                               attributes = converter_to_internal_filter self ''openid''
                                              (claims_supported self),
                               subject_id = PNone\<rparr>;
                            ctx2 = ctx1\<lparr>target_backend := Some (default_target_backend self),
                                        internal_data := Some internal_req\<rparr>
                        in return (Internal internal_req ctx2))))))))))"

definition authorization_endpoint ::
  "'st frontend \<Rightarrow> ExtendedContext \<Rightarrow> 'st app \<Rightarrow> (exn + response) \<times> 'st app" where
  "authorization_endpoint self ctx =
     seq (u_load_cdb self ctx None) (\<lambda>_.
     let endpoint = Authorization in
     seq (u_handle_authn_request self ctx endpoint) (\<lambda>internal_req.
       case internal_req of
         NotInternal r \<Rightarrow> send_response r
       | Internal d ctx' \<Rightarrow> auth_req_callback_func self ctx' d))"

definition handle_authn_request ::
  "'st frontend \<Rightarrow> ExtendedContext \<Rightarrow> 'st app \<Rightarrow> (exn + response) \<times> 'st app" where
  "handle_authn_request self ctx =
     (let endpoint = Authorization in
      seq (u_handle_authn_request self ctx endpoint) (\<lambda>internal_req.
        case internal_req of
          NotInternal r \<Rightarrow> send_response r
        | Internal d ctx' \<Rightarrow> auth_req_callback_func self ctx' d))"

text \<open>
  \<^verbatim>\<open>_args["response_args"].to_dict()\<close> in the branch that builds a redirect.
\<close>

fun response_args_to_dict :: "authz_args \<Rightarrow> exn + pydict" where
  "response_args_to_dict (AuthzArgs (Some (Msg m))) = Inr m"
| "response_args_to_dict (AuthzArgs (Some (AuthorizationErrorResponse m))) = Inr m"
| "response_args_to_dict (AuthzArgs None) = Inl (KeyError ''response_args'')"
| "response_args_to_dict (ResponseMessage d) =
     (case map_of d ''response_args'' of
        None \<Rightarrow> Inl (KeyError ''response_args'')
      | Some (PDict m) \<Rightarrow> Inr m
      | Some v \<Rightarrow>
          Inl (AttributeError
                (quoted (type_name v) @ '' object has no attribute '' @ quoted ''to_dict'')))"

text \<open>
  The two tests on \<^verbatim>\<open>_args\<close> after \<^verbatim>\<open>authz_part2\<close>: the response to send at
  once, if any.
\<close>

fun authz_error_response :: "'st frontend \<Rightarrow> authz_args \<Rightarrow> response option" where
  "authz_error_response self (ResponseMessage d) =
     (if ''error'' \<in> fst ` set d then Some (JsonResponse (PDict d) (Some ''400'')) else None)"
| "authz_error_response self (AuthzArgs (Some (AuthorizationErrorResponse m))) =
     Some (JsonResponse (to_json self m) (Some ''400''))"
| "authz_error_response self (AuthzArgs a) = None"

text \<open>
  The message of the \<^verbatim>\<open>TypeError\<close> of \<^verbatim>\<open>v + "..."\<close> for a value that is not a
  string.
\<close>

fun concat_str_error :: "pyval \<Rightarrow> string" where
  "concat_str_error (PList xs) =
     ''can only concatenate list (not '' @ [CHR 0x22] @ ''str'' @ [CHR 0x22] @ '') to list''"
| "concat_str_error v =
     ''unsupported operand type(s) for +: '' @ quoted (type_name v) @ '' and '' @ quoted ''str''"

text \<open>
  The end of \<^verbatim>\<open>_handle_backend_response\<close>, from \<^verbatim>\<open>endpoint.do_response\<close> on:
  the response is placed in the body or in a redirect.
\<close>

definition backend_response_placement ::
  "'st frontend \<Rightarrow> endpoint \<Rightarrow> parsed \<Rightarrow> pydict \<Rightarrow> authz_args \<Rightarrow>
     'st app \<Rightarrow> (exn + response) \<times> 'st app" where
  "backend_response_placement self endpoint parse_req proc_req args =
     seq (endpoint_do_response self endpoint parse_req proc_req) (\<lambda>info.
     seq (lift (dict_item info ''response'')) (\<lambda>info_response.
       let placement =
             (case map_of info ''response_placement'' of
                None \<Rightarrow> response_placement self endpoint
              | Some p \<Rightarrow> p)
       in if placement = PStr ''body'' then return (Response info_response)
          else if placement = PStr ''url'' then
            seq (lift (response_args_to_dict args)) (\<lambda>data.
              (case info_response of
                 PStr url \<Rightarrow> return (SeeOther (url @ urlencode self data))
               | v \<Rightarrow> raise (TypeError (concat_str_error v))))
          else seq u_flush_endpoint_context_memory (\<lambda>_. raise NotImplementedError)))"

text \<open>
  \<^verbatim>\<open>_handle_backend_response\<close>. \<open>salt\<close> is the text of the random bytes drawn for
  the authentication event. Both \<^verbatim>\<open>except\<close> branches around
  \<^verbatim>\<open>authz_part2\<close> return \<^verbatim>\<open>handle_error(excp=excp)\<close>.
\<close>

definition u_handle_backend_response ::
  "'st frontend \<Rightarrow> ExtendedContext \<Rightarrow> InternalData \<Rightarrow> string \<Rightarrow>
     'st app \<Rightarrow> (exn + response) \<times> 'st app" where
  "u_handle_backend_response self ctx internal_resp salt =
     (let http_info = u_get_http_headers ctx;
          endpoint = Authorization
      in seq (lift (dict_item (state ctx) (name self))) (\<lambda>st.
         seq (lift (dict_item st ''oidc_request'')) (\<lambda>oidc_req.
         seq (lift (dict_item oidc_req ''client_id'')) (\<lambda>cid.
         seq (u_load_cdb self ctx (Some cid)) (\<lambda>_.
         seq (lift (AuthorizationRequest_from_urlencoded self oidc_req)) (\<lambda>m.
         seq (u_load_session self (Msg m) endpoint http_info) (\<lambda>_.
         seq (u_process_request self endpoint ctx (Msg m) http_info) (\<lambda>proc_req.
           (case proc_req of
              ProcJson r \<Rightarrow> send_response r
            | ProcArgs a \<Rightarrow>
                seq (lift (dict_item m ''client_id'')) (\<lambda>client_id.
                seq (authn_broker_get_method_by_id self ''user'') (\<lambda>token_usage_rules.
                seq (session_manager_create_session self
                       (create_authn_event self (subject_id internal_resp) salt) (Msg m)
                       (subject_id internal_resp) client_id token_usage_rules) (\<lambda>session_id.
                  (\<lambda>s. (case endpoint_authz_part2 self (subject_id internal_resp) session_id
                                 (Msg m)
                                 (create_authn_event self (subject_id internal_resp) salt) s of
                           (Inl excp, s') \<Rightarrow> handle_error None (Some excp) ''403'' s'
                         | (Inr args, s') \<Rightarrow>
                             (case authz_error_response self args of
                                Some r \<Rightarrow> send_response r s'
                              | None \<Rightarrow>
                                  backend_response_placement self endpoint (Msg m) a args
                                    s')))))))))))))))"

text \<open>
  The claims of \<^verbatim>\<open>handle_authn_response\<close>: \<^verbatim>\<open>{k: v for k, v in _claims.items() if v}\<close>,
  then the dictionary of what \<^verbatim>\<open>combine_claim_values\<close> yields.
\<close>

definition filter_unset_claims :: "pydict \<Rightarrow> pydict" where
  "filter_unset_claims uclaims = filter (\<lambda>(k, v). truthy v) uclaims"

definition combined_claims :: "'st frontend \<Rightarrow> pydict \<Rightarrow> pydict" where
  "combined_claims self uclaims = dict_of (combine_claim_values self (filter_unset_claims uclaims))"

text \<open>
  \<^verbatim>\<open>handle_authn_response\<close>. The \<^verbatim>\<open>del context.state[self.name]\<close> finds its key:
  \<^verbatim>\<open>_handle_backend_response\<close> has read it.
\<close>

definition handle_authn_response ::
  "'st frontend \<Rightarrow> ExtendedContext \<Rightarrow> InternalData \<Rightarrow> string \<Rightarrow>
     'st app \<Rightarrow> (exn + response) \<times> 'st app" where
  "handle_authn_response self ctx internal_resp salt =
     (let uclaims = converter_from_internal self ''openid'' (attributes internal_resp);
          claims = combined_claims self uclaims
      in seq (u_handle_backend_response self ctx internal_resp salt) (\<lambda>response.
         seq (store_session_to_db self (Some claims)) (\<lambda>_.
           send_response response)))"

section \<open>The session manager of the specification\<close>

text \<open>
  Modelled from the spec: the Session Manager (section 4.2) and its Session (section 3).
  The code behind \<^verbatim>\<open>session_manager.create_session\<close> and
  \<^verbatim>\<open>storage.load_session_from_db\<close> is not part of \<^verbatim>\<open>idpy_oidcop.py\<close>, which only
  calls them. \<open>create\<close> generates a fresh unique id and fails with \<open>CapacityError\<close>
  only if the backing store is exhausted; \<open>load\<close> fails with \<open>SessionNotFound\<close> or
  \<open>SessionExpired\<close>.
\<close>

datatype session_state = Active | Expired | Revoked

record session =
  session_subject :: string
  session_client :: string
  session_authn_event :: pyval
  session_scopes :: "string list"
  session_tokens :: "string list"
  session_status :: session_state

datatype session_error = CapacityError | SessionNotFound | SessionExpired

record session_store =
  sessions :: "(nat \<times> session) list"
  capacity :: nat

definition fresh_id :: "session_store \<Rightarrow> nat" where
  "fresh_id st = foldr (\<lambda>(i, s) m. max (Suc i) m) (sessions st) 0"

definition create ::
  "session_store \<Rightarrow> string \<Rightarrow> string \<Rightarrow> pyval \<Rightarrow> string list \<Rightarrow>
     session_error + (nat \<times> session_store)" where
  "create st subject client authn_event scopes =
     (if capacity st \<le> length (sessions st) then Inl CapacityError
      else
        let sid = fresh_id st;
            s = \<lparr>session_subject = subject, session_client = client,
                 session_authn_event = authn_event, session_scopes = scopes,
                 session_tokens = [], session_status = Active\<rparr>
        in Inr (sid, st\<lparr>sessions := sessions st @ [(sid, s)]\<rparr>))"

definition load :: "session_store \<Rightarrow> nat \<Rightarrow> session_error + session" where
  "load st sid =
     (case map_of (sessions st) sid of
        None \<Rightarrow> Inl SessionNotFound
      | Some s \<Rightarrow> if session_status s = Expired then Inl SessionExpired else Inr s)"

section \<open>\<^verbatim>\<open>FileGenerator\<close> of the test helpers\<close>

text \<open>
  The class \<^verbatim>\<open>FileGenerator\<close> of \<^verbatim>\<open>tests/util.py\<close>. An object is known by its
  reference, the number of objects the class had allocated before it. The class holds
  \<^verbatim>\<open>_instance\<close>; \<open>constructed\<close> lists the objects whose \<^verbatim>\<open>__init__\<close> has
  completed, in order.
\<close>

record FileGenerator_class =
  u_instance :: "nat option"
  allocated :: nat
  constructed :: "nat list"

definition FileGenerator_class0 :: FileGenerator_class where
  "FileGenerator_class0 = \<lparr>u_instance = None, allocated = 0, constructed = []\<rparr>"

text \<open>
  \<^verbatim>\<open>FileGenerator()\<close>: a new object is allocated, then \<^verbatim>\<open>__init__\<close> runs on
  it. An object is true, so \<^verbatim>\<open>if FileGenerator._instance\<close> tests that it is set.
\<close>

definition FileGenerator :: "FileGenerator_class \<Rightarrow> (exn + nat) \<times> FileGenerator_class" where
  "FileGenerator c =
     (let self = allocated c;
          c1 = c\<lparr>allocated := Suc self\<rparr>
      in case u_instance c1 of
           Some i \<Rightarrow> (Inl (TypeError ''Singletons must be accessed through `get_instance()`.''), c1)
         | None \<Rightarrow> (Inr self, c1\<lparr>u_instance := Some self, constructed := constructed c1 @ [self]\<rparr>))"

text \<open>\<^verbatim>\<open>FileGenerator.get_instance()\<close> returns what \<^verbatim>\<open>_instance\<close> holds.\<close>

definition get_instance ::
  "FileGenerator_class \<Rightarrow> (exn + nat option) \<times> FileGenerator_class" where
  "get_instance c =
     (case u_instance c of
        None \<Rightarrow>
          (case FileGenerator c of
             (Inl e, c') \<Rightarrow> (Inl e, c')
           | (Inr self, c') \<Rightarrow> (Inr (u_instance c'), c'))
      | Some i \<Rightarrow> (Inr (u_instance c), c))"

text \<open>A run of the program is a sequence of calls on the class.\<close>

datatype FileGenerator_call = Construct | GetInstance

fun FileGenerator_run ::
  "FileGenerator_call list \<Rightarrow> FileGenerator_class \<Rightarrow> (exn + nat option) list \<times> FileGenerator_class" where
  "FileGenerator_run [] c = ([], c)"
| "FileGenerator_run (Construct # calls) c =
     (case FileGenerator c of
        (r, c') \<Rightarrow>
          (case FileGenerator_run calls c' of
             (rs, c'') \<Rightarrow> (map_sum id Some r # rs, c'')))"
| "FileGenerator_run (GetInstance # calls) c =
     (case get_instance c of
        (r, c') \<Rightarrow>
          (case FileGenerator_run calls c' of
             (rs, c'') \<Rightarrow> (r # rs, c'')))"

section \<open>Test doubles\<close>

text \<open>
  A frontend with the simplest collaborators, and an application state, to run the
  methods on concrete requests: the storage knows every client and keeps the claims it
  was last given to store, loading a session puts one grant into the session manager, the
  endpoints accept every request.
\<close>

definition grant_entry :: pyval where
  "grant_entry = PList [PStr ''oidcop.session.grant.Grant'']"

definition stub_frontend :: "pydict option frontend" where
  "stub_frontend =
     \<lparr>name = ''oidcop'',
      claims_supported = PList [PStr ''sub''],
      default_target_backend = ''saml2'',
      response_placement = (\<lambda>ep. PStr ''url''),
      storage_get_client_by_id =
        (\<lambda>c s. (Inr (PDict [(''client_id'', PStr c), (''client_name'', PStr ''RP'')]), s)),
      storage_load_session_from_db =
        (\<lambda>pr hi s. (Inr [], s\<lparr>sman := [(''sid1'', grant_entry)]\<rparr>)),
      storage_store_session_to_db = (\<lambda>cl s. (Inr (), s\<lparr>storage := cl\<rparr>)),
      storage_get_claims_from_sid = (\<lambda>sid s. (Inr [(''sub'', PStr ''u1'')], s)),
      endpoint_parse_request = (\<lambda>ep req hi s. (Inr (Msg (request_dict req)), s)),
      endpoint_process_request = (\<lambda>ep pr hi s. (Inr [(''response_args'', PDict [])], s)),
      endpoint_do_response = (\<lambda>ep pr a s. (Inr [(''response'', PStr ''https://rp/cb?'')], s)),
      endpoint_authz_part2 =
        (\<lambda>sub sid pr ev s. (Inr (AuthzArgs (Some (Msg [(''code'', PStr ''c1'')]))), s)),
      authn_broker_get_method_by_id = (\<lambda>i s. (Inr PNone, s)),
      session_manager_create_session =
        (\<lambda>ev pr sub cid tur s. (Inr (PStr ''sid1''), s\<lparr>sman := dict_set (sman s) ''sid1'' grant_entry\<rparr>)),
      auth_req_callback_func = (\<lambda>ctx d s. (Inr (SeeOther ''https://proxy/backend''), s)),
      AccessTokenRequest = (\<lambda>pr. Inr pr),
      AccessTokenRequest_from_urlencoded = (\<lambda>req. Inr (request_dict req)),
      AuthorizationRequest_from_urlencoded = (\<lambda>req. Inr (request_dict req)),
      create_authn_event = (\<lambda>uid salt. PDict [(''uid'', uid), (''salt'', PStr salt)]),
      converter_to_internal_filter = (\<lambda>p cs. cs),
      converter_from_internal = (\<lambda>p a. case a of PDict d \<Rightarrow> d | _ \<Rightarrow> []),
      combine_claim_values = (\<lambda>d. d),
      urlencode = (\<lambda>d. ''code=c1''),
      to_json = PDict\<rparr>"

definition stub_context :: ExtendedContext where
  "stub_context =
     \<lparr>request = [(''client_id'', ''rp2''), (''scope'', ''openid'')],
      http_headers = Some [(''Host'', ''op.example''), (''cookie'', ''x=1'')],
      request_method = ''GET'',
      request_uri = ''/authorization'',
      request_authorization = None,
      state = [],
      target_backend = None,
      internal_data = None\<rparr>"

definition stub_app :: "pydict option app" where
  "stub_app =
     \<lparr>cdb = [(''rp1'', PDict [(''client_id'', PStr ''rp1'')])],
      sman = [], userinfo = [], storage = None\<rparr>"

text \<open>
  A \<^verbatim>\<open>JsonResponse\<close> whose message is an object with the fields \<open>error\<close> and
  \<open>error_description\<close>.
\<close>

fun json_error_fields :: "response \<Rightarrow> bool" where
  "json_error_fields (JsonResponse (PDict d) status) =
     (''error'' \<in> fst ` set d \<and> ''error_description'' \<in> fst ` set d)"
| "json_error_fields r = False"

text \<open>
  A double of \<^verbatim>\<open>combine_claim_values\<close> that releases the first value of a claim
  whose value is a list.
\<close>

definition select_first :: "pydict \<Rightarrow> pydict" where
  "select_first claims = map (\<lambda>(k, v). (k, case v of PList (x # xs) \<Rightarrow> x | _ \<Rightarrow> v)) claims"

section \<open>Properties\<close>

lemma map_of_dict_set: "map_of (dict_set d k v) = (map_of d)(k \<mapsto> v)"
  by (induction d) (auto simp: fun_eq_iff)

lemma dict_get_dict_set: "dict_get (dict_set d k v) k' = (if k' = k then v else dict_get d k')"
  by (simp add: dict_get_def map_of_dict_set)

subsection \<open>The HTTP headers passed to the provider library\<close>

text \<open>
  C9. When \<open>request_authorization\<close> is set to a non-empty value, the \<open>headers\<close> entry
  of the result holds the authorization header and nothing else, whatever headers the
  request carried; and when \<open>http_headers\<close> was absent or empty, the result has no
  other entry at all (no \<open>method\<close>, no \<open>url\<close>).
\<close>

theorem get_http_headers_authorization_only:
  assumes "request_authorization ctx = Some a" and "a \<noteq> []"
  shows "dict_get (u_get_http_headers ctx) ''headers'' = PDict [(''authorization'', PStr a)] \<and>
         (http_headers ctx = None \<or> http_headers ctx = Some [] \<longrightarrow>
            u_get_http_headers ctx = [(''headers'', PDict [(''authorization'', PStr a)])])"
  using assms
  by (auto simp: u_get_http_headers_def Let_def dict_get_dict_set split: option.splits)

theorem get_http_headers_authorization_only_witness:
  "dict_get (u_get_http_headers (stub_context\<lparr>request_authorization := Some ''Bearer t''\<rparr>)) ''headers''
     = PDict [(''authorization'', PStr ''Bearer t'')] \<and>
   u_get_http_headers (stub_context\<lparr>request_authorization := Some ''Bearer t'', http_headers := None\<rparr>)
     = [(''headers'', PDict [(''authorization'', PStr ''Bearer t'')])]"
  using get_http_headers_authorization_only [of "stub_context\<lparr>request_authorization := Some ''Bearer t''\<rparr>" "''Bearer t''"]
    get_http_headers_authorization_only [of "stub_context\<lparr>request_authorization := Some ''Bearer t'', http_headers := None\<rparr>" "''Bearer t''"]
  by (simp add: stub_context_def)

subsection \<open>The client database\<close>

text \<open>
  C1, as the code has it. \<^verbatim>\<open>_load_cdb\<close> assigns one field, the client database of
  the endpoint context, on every call. The client id it uses is the argument when that is
  given and not empty, and the \<open>client_id\<close> of the request otherwise. With such an id,
  it asks the storage for that client, and the database becomes the single entry of that
  id and the client the storage returned, on the state the lookup left; if the lookup
  raises, the exception goes on and the database is as the lookup left it. With no id, or
  an empty one, the database becomes empty and \<^verbatim>\<open>InvalidClient\<close> is raised.
\<close>

theorem load_cdb_overwrites_cdb_only:
  assumes "cid = (case client_id of
                    Some c \<Rightarrow> if c \<noteq> [] then Some c else map_of (request ctx) ''client_id''
                  | None \<Rightarrow> map_of (request ctx) ''client_id'')"
  shows "(\<forall>c client s1. cid = Some c \<and> c \<noteq> [] \<and>
            storage_get_client_by_id self c s = (Inr client, s1) \<longrightarrow>
            u_load_cdb self ctx client_id s = (Inr client, s1\<lparr>cdb := [(c, client)]\<rparr>)) \<and>
         (\<forall>c e s1. cid = Some c \<and> c \<noteq> [] \<and>
            storage_get_client_by_id self c s = (Inl e, s1) \<longrightarrow>
            u_load_cdb self ctx client_id s = (Inl e, s1)) \<and>
         (cid = None \<or> cid = Some [] \<longrightarrow>
            u_load_cdb self ctx client_id s =
              (Inl (InvalidClient
                     (''Client '' @ (case cid of None \<Rightarrow> ''None'' | Some c \<Rightarrow> c) @
                      '' not found!'')),
               s\<lparr>cdb := []\<rparr>))"
  using assms
  by (auto simp: u_load_cdb_def Let_def seq_def split: option.splits if_splits)

theorem load_cdb_overwrites_cdb_only_witness:
  "u_load_cdb stub_frontend stub_context None stub_app =
     (Inr (PDict [(''client_id'', PStr ''rp2''), (''client_name'', PStr ''RP'')]),
      stub_app\<lparr>cdb := [(''rp2'', PDict [(''client_id'', PStr ''rp2''), (''client_name'', PStr ''RP'')])]\<rparr>) \<and>
   u_load_cdb stub_frontend stub_context (Some ''rp3'') stub_app =
     (Inr (PDict [(''client_id'', PStr ''rp3''), (''client_name'', PStr ''RP'')]),
      stub_app\<lparr>cdb := [(''rp3'', PDict [(''client_id'', PStr ''rp3''), (''client_name'', PStr ''RP'')])]\<rparr>) \<and>
   u_load_cdb stub_frontend (stub_context\<lparr>request := [(''scope'', ''openid'')]\<rparr>) (Some []) stub_app =
     (Inl (InvalidClient ''Client None not found!''), stub_app\<lparr>cdb := []\<rparr>)"
  using load_cdb_overwrites_cdb_only [where cid = "Some ''rp2''" and client_id = None
      and ctx = stub_context and self = stub_frontend and s = stub_app]
    load_cdb_overwrites_cdb_only [where cid = "Some ''rp3''" and client_id = "Some ''rp3''"
      and ctx = stub_context and self = stub_frontend and s = stub_app]
    load_cdb_overwrites_cdb_only [where cid = None and client_id = "Some []"
      and ctx = "stub_context\<lparr>request := [(''scope'', ''openid'')]\<rparr>"
      and self = stub_frontend and s = stub_app]
  by (simp add: stub_frontend_def stub_context_def)

text \<open>
  C1 as stated fails: a lookup of client \<open>rp2\<close> replaces a client database that held
  client \<open>rp1\<close>.
\<close>

theorem load_cdb_mutates_cdb_counterexample:
  "cdb stub_app = [(''rp1'', PDict [(''client_id'', PStr ''rp1'')])] \<and>
   cdb (snd (u_load_cdb stub_frontend stub_context None stub_app)) =
     [(''rp2'', PDict [(''client_id'', PStr ''rp2''), (''client_name'', PStr ''RP'')])]"
  by (simp add: u_load_cdb_def Let_def seq_def stub_frontend_def stub_context_def stub_app_def)

subsection \<open>Loading a session\<close>

text \<open>
  C8, as the code has it. When the data loaded from the database has a true value under
  \<open>client_id\<close>, \<^verbatim>\<open>_load_session\<close> raises \<^verbatim>\<open>NameError\<close> for the name
  \<^verbatim>\<open>sdata\<close>, on the state the load left; no caller catches it, and the userinfo
  endpoint, which starts with \<^verbatim>\<open>_load_session\<close>, ends with that exception.
\<close>

theorem load_session_name_error:
  assumes "load_session_from_db self parse_req http_info (s\<lparr>sman := []\<rparr>) = (Inr data, s1)"
    and "truthy (dict_get data ''client_id'')"
  shows "u_load_session self parse_req endpoint http_info s = (Inl (NameError ''sdata''), s1) \<and>
         (parse_req = Msg [] \<and> http_info = u_get_http_headers ctx \<longrightarrow>
            userinfo_endpoint self ctx s = (Inl (NameError ''sdata''), s1))"
proof -
  have a: "u_load_session self parse_req endpoint http_info s = (Inl (NameError ''sdata''), s1)"
    for endpoint
    using assms
    by (simp add: u_load_session_def seq_def raise_def u_flush_endpoint_context_memory_def)
  have "userinfo_endpoint self ctx s = (Inl (NameError ''sdata''), s1)"
    if "parse_req = Msg []" and "http_info = u_get_http_headers ctx"
    using a [of Userinfo] that by (simp add: userinfo_endpoint_def Let_def seq_def)
  with a show ?thesis by blast
qed

text \<open>
  C8 as stated fails: a \<open>client_id\<close> key with an empty value does not take the branch.
\<close>

theorem load_session_empty_client_id_counterexample:
  "dict_get [(''client_id'', PStr '''')] ''client_id'' = PStr '''' \<and>
   u_load_session
     (stub_frontend\<lparr>storage_load_session_from_db :=
        (\<lambda>pr hi s. (Inr [(''client_id'', PStr '''')], s))\<rparr>)
     (Msg []) Userinfo [] stub_app = (Inr (), stub_app)"
  by (simp add: u_load_session_def load_session_from_db_def seq_def raise_def return_def
      u_flush_endpoint_context_memory_def stub_frontend_def stub_app_def dict_get_def)

theorem load_session_name_error_witness:
  "u_load_session
     (stub_frontend\<lparr>storage_load_session_from_db :=
        (\<lambda>pr hi s. (Inr [(''client_id'', PStr ''rp2'')], s))\<rparr>)
     (Msg []) Userinfo (u_get_http_headers stub_context) stub_app
     = (Inl (NameError ''sdata''), stub_app) \<and>
   userinfo_endpoint
     (stub_frontend\<lparr>storage_load_session_from_db :=
        (\<lambda>pr hi s. (Inr [(''client_id'', PStr ''rp2'')], s))\<rparr>)
     stub_context stub_app
     = (Inl (NameError ''sdata''), stub_app)"
  using load_session_name_error [of
      "stub_frontend\<lparr>storage_load_session_from_db :=
        (\<lambda>pr hi s. (Inr [(''client_id'', PStr ''rp2'')], s))\<rparr>"
      "Msg []" "u_get_http_headers stub_context" stub_app "[(''client_id'', PStr ''rp2'')]"
      stub_app Userinfo stub_context]
  by (simp add: load_session_from_db_def stub_frontend_def stub_app_def dict_get_def)


subsection \<open>The claims released after authentication\<close>

lemma map_of_foldl_dict_set:
  "map_of (foldl (\<lambda>d (k, v). dict_set d k v) d xs) = map_of d ++ map_of (rev xs)"
proof (induction xs arbitrary: d)
  case Nil
  then show ?case by simp
next
  case (Cons x xs)
  obtain k v where x: "x = (k, v)" by (cases x)
  have "map_of (dict_set d k v) ++ map_of (rev xs) = map_of d ++ map_of (rev xs @ [(k, v)])"
    by (simp add: map_of_dict_set fun_eq_iff map_add_def split: option.splits)
  with Cons.IH [of "dict_set d k v"] x show ?case by simp
qed

lemma map_of_dict_of: "map_of (dict_of xs) = map_of (rev xs)"
  by (simp add: dict_of_def map_of_foldl_dict_set)

lemma distinct_dict_set:
  "distinct (map fst d) \<Longrightarrow> distinct (map fst (dict_set d k v))"
proof (induction d)
  case Nil
  then show ?case by simp
next
  case (Cons p d)
  have "fst ` set (dict_set d k v) = insert k (fst ` set d)"
    by (induction d) auto
  with Cons show ?case by auto
qed

lemma distinct_foldl_dict_set:
  "distinct (map fst d) \<Longrightarrow> distinct (map fst (foldl (\<lambda>d (k, v). dict_set d k v) d xs))"
  by (induction xs arbitrary: d) (auto simp: distinct_dict_set split: prod.splits)

lemma distinct_dict_of: "distinct (map fst (dict_of xs))"
  by (simp add: dict_of_def distinct_foldl_dict_set)

lemma dict_of_subset: "set (dict_of xs) \<subseteq> set xs"
proof
  fix p assume p: "p \<in> set (dict_of xs)"
  obtain k v where kv: "p = (k, v)" by (cases p)
  with p have "map_of (dict_of xs) k = Some v"
    using distinct_dict_of [of xs] by simp
  then have "map_of (rev xs) k = Some v" by (simp add: map_of_dict_of)
  then have "(k, v) \<in> set (rev xs)" by (rule map_of_SomeD)
  with kv show "p \<in> set xs" by simp
qed

text \<open>
  C6, as the code has it. Of the claims the converter yields, \<^verbatim>\<open>handle_authn_response\<close>
  keeps those with a true value: a claim whose value is \<^verbatim>\<open>None\<close> or empty is left
  out, a claim with a true value is kept as it is. The released claims are the dictionary
  of what \<^verbatim>\<open>combine_claim_values\<close> yields from the kept claims, the last value
  for each name; every released claim is one it yielded. Whenever
  \<^verbatim>\<open>handle_authn_response\<close> returns, it has stored exactly the released claims and
  returns the response of \<^verbatim>\<open>_handle_backend_response\<close> after a flush.
\<close>

theorem released_claims_from_kept_claims:
  assumes "uclaims = converter_from_internal self ''openid'' (attributes internal_resp)"
    and "distinct (map fst uclaims)"
    and "kept = filter_unset_claims uclaims"
    and "released = combined_claims self uclaims"
  shows "(\<forall>k. map_of kept k =
              (case map_of uclaims k of
                 None \<Rightarrow> None
               | Some v \<Rightarrow> if truthy v then Some v else None)) \<and>
         (\<forall>(k, v) \<in> set kept. truthy v) \<and>
         distinct (map fst released) \<and>
         map_of released = map_of (rev (combine_claim_values self kept)) \<and>
         set released \<subseteq> set (combine_claim_values self kept) \<and>
         (\<forall>r s s'. handle_authn_response self ctx internal_resp salt s = (Inr r, s') \<longrightarrow>
            (\<exists>sa sb. u_handle_backend_response self ctx internal_resp salt s = (Inr r, sa) \<and>
                     storage_store_session_to_db self (Some released) sa = (Inr (), sb) \<and>
                     s' = sb\<lparr>sman := []\<rparr>))"
proof -
  have kept_map: "map_of kept k =
      (case map_of uclaims k of None \<Rightarrow> None | Some v \<Rightarrow> if truthy v then Some v else None)"
    for k
    unfolding assms(3) filter_unset_claims_def using assms(2)
  proof (induction uclaims)
    case Nil
    then show ?case by simp
  next
    case (Cons p ps)
    obtain a b where p: "p = (a, b)" by (cases p)
    from Cons.prems p have notin: "a \<notin> fst ` set ps" by simp
    then have "map_of (filter (\<lambda>(k, v). truthy v) ps) a = None"
      by (auto simp: map_of_eq_None_iff)
    with Cons p show ?case by (auto split: option.splits)
  qed
  have kept_true: "\<forall>(k, v) \<in> set kept. truthy v"
    by (auto simp: assms(3) filter_unset_claims_def)
  have rel: "released = dict_of (combine_claim_values self kept)"
    by (simp add: assms(3,4) combined_claims_def)
  have dist: "distinct (map fst released)"
    unfolding rel by (rule distinct_dict_of)
  have m: "map_of released = map_of (rev (combine_claim_values self kept))"
    unfolding rel by (rule map_of_dict_of)
  have sub: "set released \<subseteq> set (combine_claim_values self kept)"
    unfolding rel by (rule dict_of_subset)
  have stored: "\<exists>sa sb. u_handle_backend_response self ctx internal_resp salt s = (Inr r, sa) \<and>
                     storage_store_session_to_db self (Some released) sa = (Inr (), sb) \<and>
                     s' = sb\<lparr>sman := []\<rparr>"
    if "handle_authn_response self ctx internal_resp salt s = (Inr r, s')" for r s s'
    using that
    by (auto simp: handle_authn_response_def Let_def store_session_to_db_def assms(1,4)
        send_response_def return_def u_flush_endpoint_context_memory_def seq_def
        split: prod.splits sum.splits)
  from kept_map kept_true dist m sub stored show ?thesis by blast
qed

theorem released_claims_from_kept_claims_witness:
  "filter_unset_claims
     [(''sub'', PList [PStr ''u1'']), (''email'', PList []), (''name'', PNone),
      (''nickname'', PStr '''')] = [(''sub'', PList [PStr ''u1''])] \<and>
   combined_claims stub_frontend
     [(''sub'', PList [PStr ''u1'']), (''email'', PList []), (''name'', PNone),
      (''nickname'', PStr '''')] = [(''sub'', PList [PStr ''u1''])] \<and>
   truthy (PList [PStr ''u1'']) \<and>
   storage (snd (handle_authn_response stub_frontend
     (stub_context\<lparr>state := [(''oidcop'', [(''oidc_request'', request stub_context)])]\<rparr>)
     \<lparr>subject_type = PStr ''pairwise'', requester = PStr ''rp2'', requester_name = PNone,
      attributes = PDict [(''sub'', PList [PStr ''u1'']), (''email'', PList []),
                          (''name'', PNone), (''nickname'', PStr '''')],
      subject_id = PStr ''u1''\<rparr>
     ''salt'' stub_app)) = Some [(''sub'', PList [PStr ''u1''])]"
proof -
  let ?uclaims = "[(''sub'', PList [PStr ''u1'']), (''email'', PList []), (''name'', PNone),
      (''nickname'', PStr '''')]"
  let ?ir = "\<lparr>subject_type = PStr ''pairwise'', requester = PStr ''rp2'',
      requester_name = PNone, attributes = PDict ?uclaims, subject_id = PStr ''u1''\<rparr>"
  let ?ctx = "stub_context\<lparr>state := [(''oidcop'', [(''oidc_request'', request stub_context)])]\<rparr>"
  have a: "?uclaims = converter_from_internal stub_frontend ''openid'' (attributes ?ir)"
    by (simp add: stub_frontend_def)
  have b: "distinct (map fst ?uclaims)"
    by simp
  have c: "[(''sub'', PList [PStr ''u1''])] = filter_unset_claims ?uclaims"
    by (simp add: filter_unset_claims_def)
  have d: "[(''sub'', PList [PStr ''u1''])] = combined_claims stub_frontend ?uclaims"
    by (simp add: combined_claims_def filter_unset_claims_def dict_of_def stub_frontend_def)
  have e: "storage (snd (handle_authn_response stub_frontend ?ctx ?ir ''salt'' stub_app)) =
      Some [(''sub'', PList [PStr ''u1''])]"
    by (simp add: filter_unset_claims_def combined_claims_def dict_of_def
      handle_authn_response_def u_handle_backend_response_def backend_response_placement_def
      store_session_to_db_def Let_def seq_def lift_def return_def send_response_def
      u_flush_endpoint_context_memory_def u_load_cdb_def u_load_session_def
      load_session_from_db_def u_process_request_def dict_item_def dict_get_def
      request_dict_def grant_entry_def
      stub_frontend_def stub_context_def stub_app_def)
  note t = released_claims_from_kept_claims [OF a b c d, of ?ctx "''salt''"]
  from t have "\<forall>(k, v) \<in> set [(''sub'', PList [PStr ''u1''])]. truthy v"
    by (elim conjE)
  then have "truthy (PList [PStr ''u1''])" by simp
  with c d e show ?thesis by simp
qed

text \<open>
  C6 as stated fails: a claim whose value is a list holding an empty string, or
  \<^verbatim>\<open>None\<close>, has a true value and is kept; it is released as that list when
  \<^verbatim>\<open>combine_claim_values\<close> returns its input, and as the empty string or
  \<^verbatim>\<open>None\<close> when it selects the first value, and that is what is stored.
\<close>

theorem empty_claim_released_counterexample:
  "filter_unset_claims [(''email'', PList [PStr '''']), (''name'', PList [PNone])] =
     [(''email'', PList [PStr '''']), (''name'', PList [PNone])] \<and>
   combined_claims stub_frontend [(''email'', PList [PStr '''']), (''name'', PList [PNone])] =
     [(''email'', PList [PStr '''']), (''name'', PList [PNone])] \<and>
   combined_claims (stub_frontend\<lparr>combine_claim_values := select_first\<rparr>)
       [(''email'', PList [PStr '''']), (''name'', PList [PNone])] =
     [(''email'', PStr ''''), (''name'', PNone)] \<and>
   \<not> truthy (PStr '''') \<and> \<not> truthy PNone \<and>
   storage (snd (handle_authn_response (stub_frontend\<lparr>combine_claim_values := select_first\<rparr>)
     (stub_context\<lparr>state := [(''oidcop'', [(''oidc_request'', request stub_context)])]\<rparr>)
     \<lparr>subject_type = PStr ''pairwise'', requester = PStr ''rp2'', requester_name = PNone,
      attributes = PDict [(''email'', PList [PStr '''']), (''name'', PList [PNone])],
      subject_id = PStr ''u1''\<rparr>
     ''salt'' stub_app)) = Some [(''email'', PStr ''''), (''name'', PNone)]"
  by (simp add: filter_unset_claims_def combined_claims_def dict_of_def select_first_def
      handle_authn_response_def u_handle_backend_response_def backend_response_placement_def
      store_session_to_db_def Let_def seq_def lift_def return_def send_response_def
      u_flush_endpoint_context_memory_def u_load_cdb_def u_load_session_def
      load_session_from_db_def u_process_request_def dict_item_def dict_get_def
      request_dict_def grant_entry_def
      stub_frontend_def stub_context_def stub_app_def)

subsection \<open>The session manager of the specification\<close>

lemma fresh_id_above: "(i, s) \<in> set xs \<Longrightarrow> i < foldr (\<lambda>(i, s) m. max (Suc i) m) xs 0"
  by (induction xs) (auto simp: less_max_iff_disj)

lemma fresh_id_unused: "map_of (sessions st) (fresh_id st) = None"
proof (rule ccontr)
  assume "map_of (sessions st) (fresh_id st) \<noteq> None"
  then obtain s where "(fresh_id st, s) \<in> set (sessions st)"
    by (auto dest: map_of_SomeD)
  then have "fresh_id st < fresh_id st"
    unfolding fresh_id_def by (rule fresh_id_above)
  then show False by simp
qed

text \<open>
  C7. In the session manager of the specification, a session that \<open>create\<close> made for
  a subject and a client is found by \<open>load\<close> under the id \<open>create\<close> returned, with
  the same subject and the same client.
\<close>

theorem create_then_load:
  assumes "create st subject client authn_event scopes = Inr (sid, st')"
  shows "\<exists>s. load st' sid = Inr s \<and> session_subject s = subject \<and> session_client s = client"
proof -
  from assms have sid: "sid = fresh_id st"
    and st': "st' = st\<lparr>sessions := sessions st @
        [(sid, \<lparr>session_subject = subject, session_client = client,
                session_authn_event = authn_event, session_scopes = scopes,
                session_tokens = [], session_status = Active\<rparr>)]\<rparr>"
    by (auto simp: create_def Let_def split: if_splits)
  have "map_of (sessions st) sid = None"
    unfolding sid by (rule fresh_id_unused)
  then show ?thesis
    by (simp add: load_def st' map_add_def)
qed

theorem create_then_load_witness:
  "\<exists>s. load (snd (projr (create \<lparr>sessions = [], capacity = 2\<rparr> ''u1'' ''c1'' PNone [''openid''])))
          (fst (projr (create \<lparr>sessions = [], capacity = 2\<rparr> ''u1'' ''c1'' PNone [''openid'']))) = Inr s \<and>
       session_subject s = ''u1'' \<and> session_client s = ''c1''"
  using create_then_load [of "\<lparr>sessions = [], capacity = 2\<rparr>" "''u1''" "''c1''" PNone "[''openid'']"
      "fst (projr (create \<lparr>sessions = [], capacity = 2\<rparr> ''u1'' ''c1'' PNone [''openid'']))"
      "snd (projr (create \<lparr>sessions = [], capacity = 2\<rparr> ''u1'' ''c1'' PNone [''openid'']))"]
  by (simp add: create_def Let_def)

subsection \<open>The singleton of the test helpers\<close>

lemma FileGenerator_step:
  assumes "FileGenerator c = (r, c')"
    and "constructed c = (case u_instance c of None \<Rightarrow> [] | Some i \<Rightarrow> [i])"
  shows "constructed c' = (case u_instance c' of None \<Rightarrow> [] | Some i \<Rightarrow> [i])"
    and "u_instance c' \<noteq> None"
    and "u_instance c \<noteq> None \<Longrightarrow> u_instance c' = u_instance c"
  using assms by (auto simp: FileGenerator_def Let_def split: option.splits)

lemma get_instance_step:
  assumes "get_instance c = (r, c')"
    and "constructed c = (case u_instance c of None \<Rightarrow> [] | Some i \<Rightarrow> [i])"
  shows "constructed c' = (case u_instance c' of None \<Rightarrow> [] | Some i \<Rightarrow> [i])"
    and "u_instance c' \<noteq> None"
    and "u_instance c \<noteq> None \<Longrightarrow> u_instance c' = u_instance c"
    and "r = Inr (u_instance c')"
  using assms
  by (auto simp: get_instance_def FileGenerator_def Let_def split: option.splits)

lemma FileGenerator_run_inv:
  assumes "FileGenerator_run calls c = (rs, c')"
    and "constructed c = (case u_instance c of None \<Rightarrow> [] | Some i \<Rightarrow> [i])"
  shows "constructed c' = (case u_instance c' of None \<Rightarrow> [] | Some i \<Rightarrow> [i]) \<and>
         (u_instance c \<noteq> None \<longrightarrow> u_instance c' = u_instance c) \<and>
         (\<forall>(call, r) \<in> set (zip calls rs).
            call = GetInstance \<longrightarrow> u_instance c' \<noteq> None \<and> r = Inr (u_instance c'))"
  using assms
proof (induction calls arbitrary: c rs)
  case Nil
  then show ?case by simp
next
  case (Cons call calls)
  show ?case
  proof (cases call)
    case Construct
    obtain r c1 where step: "FileGenerator c = (r, c1)" by (cases "FileGenerator c")
    obtain rs1 where rest: "FileGenerator_run calls c1 = (rs1, c')"
      and rs: "rs = map_sum id Some r # rs1"
      using Cons.prems(1) Construct step
      by (auto split: prod.splits)
    note s = FileGenerator_step [OF step Cons.prems(2)]
    from Cons.IH [OF rest s(1)] s(2,3) Construct rs show ?thesis
      by auto
  next
    case GetInstance
    obtain r c1 where step: "get_instance c = (r, c1)" by (cases "get_instance c")
    obtain rs1 where rest: "FileGenerator_run calls c1 = (rs1, c')"
      and rs: "rs = r # rs1"
      using Cons.prems(1) GetInstance step
      by (auto split: prod.splits)
    note s = get_instance_step [OF step Cons.prems(2)]
    from Cons.IH [OF rest s(1)] s(2,3,4) GetInstance rs show ?thesis
      by auto
  qed
qed

text \<open>
  C10. In every run of calls on the class from its initial state, every call of
  \<^verbatim>\<open>get_instance()\<close> returns the one object that \<^verbatim>\<open>_instance\<close> holds at the end
  of the run, at most one object was ever constructed, and calling the constructor while
  \<^verbatim>\<open>_instance\<close> is set raises \<^verbatim>\<open>TypeError\<close> and constructs nothing.
\<close>

theorem FileGenerator_singleton:
  assumes "FileGenerator_run calls FileGenerator_class0 = (rs, c)"
  shows "length (constructed c) \<le> 1 \<and>
         (\<forall>(call, r) \<in> set (zip calls rs).
            call = GetInstance \<longrightarrow> (\<exists>i. u_instance c = Some i \<and> constructed c = [i] \<and> r = Inr (Some i))) \<and>
         (\<forall>c0 i. u_instance c0 = Some i \<longrightarrow>
            (\<exists>m. fst (FileGenerator c0) = Inl (TypeError m)) \<and>
            u_instance (snd (FileGenerator c0)) = Some i \<and>
            constructed (snd (FileGenerator c0)) = constructed c0)"
proof -
  have init: "constructed FileGenerator_class0 =
      (case u_instance FileGenerator_class0 of None \<Rightarrow> [] | Some i \<Rightarrow> [i])"
    by (simp add: FileGenerator_class0_def)
  note inv = FileGenerator_run_inv [OF assms init]
  from inv have one: "length (constructed c) \<le> 1"
    by (auto split: option.splits)
  from inv have same: "\<forall>(call, r) \<in> set (zip calls rs).
      call = GetInstance \<longrightarrow> (\<exists>i. u_instance c = Some i \<and> constructed c = [i] \<and> r = Inr (Some i))"
    by (auto split: option.splits)
  have "\<forall>c0 i. u_instance c0 = Some i \<longrightarrow>
      (\<exists>m. fst (FileGenerator c0) = Inl (TypeError m)) \<and>
      u_instance (snd (FileGenerator c0)) = Some i \<and>
      constructed (snd (FileGenerator c0)) = constructed c0"
    by (simp add: FileGenerator_def Let_def)
  with one same show ?thesis by blast
qed

theorem FileGenerator_singleton_witness:
  "FileGenerator_run [GetInstance, Construct, GetInstance] FileGenerator_class0 =
     ([Inr (Some 0), Inl (TypeError ''Singletons must be accessed through `get_instance()`.''),
       Inr (Some 0)],
      \<lparr>u_instance = Some 0, allocated = 2, constructed = [0]\<rparr>)"
  using FileGenerator_singleton [of "[GetInstance, Construct, GetInstance]"
      "fst (FileGenerator_run [GetInstance, Construct, GetInstance] FileGenerator_class0)"
      "snd (FileGenerator_run [GetInstance, Construct, GetInstance] FileGenerator_class0)"]
  by (simp add: FileGenerator_class0_def get_instance_def FileGenerator_def Let_def)


subsection \<open>Errors of \<^verbatim>\<open>_process_request\<close>\<close>

lemma process_request_raises:
  assumes "if endpoint = Token then AccessTokenRequest self parse_req = Inr req else req = parse_req"
    and "endpoint_process_request self endpoint req http_info s = (Inl err, s1)"
  shows "u_process_request self endpoint ctx parse_req http_info s =
           (Inr (ProcJson (JsonResponse
                   (error_body (if is_client_error err then ''unauthorized_client''
                                else ''invalid_request'') err)
                   (Some ''400''))),
            s1\<lparr>sman := []\<rparr>)"
  using assms
  by (auto simp: u_process_request_def send_response_def seq_def return_def
      u_flush_endpoint_context_memory_def split: if_splits)

text \<open>
  C4, as the code has it. When the endpoint's \<^verbatim>\<open>process_request\<close> raises
  \<^verbatim>\<open>InvalidClient\<close>, \<^verbatim>\<open>UnknownClient\<close> or \<^verbatim>\<open>UnAuthorizedClient\<close>,
  \<^verbatim>\<open>_process_request\<close> returns a \<^verbatim>\<open>JsonResponse\<close> with status 400 whose
  body has \<open>error\<close> equal to \<open>unauthorized_client\<close>; and the token endpoint, once
  the client database and the session are loaded and the request is parsed, returns that
  response to the caller.
\<close>

theorem client_errors_unauthorized_client:
  assumes "is_client_error err"
    and "if endpoint = Token then AccessTokenRequest self parse_req = Inr req else req = parse_req"
    and "endpoint_process_request self endpoint req http_info s = (Inl err, s1)"
  shows "u_process_request self endpoint ctx parse_req http_info s =
           (Inr (ProcJson (JsonResponse
                   (PDict [(''error'', PStr ''unauthorized_client''),
                           (''error_description'', PStr (str_exn err))])
                   (Some ''400''))),
            s1\<lparr>sman := []\<rparr>) \<and>
         (endpoint = Token \<and> http_info = u_get_http_headers ctx \<and>
          AccessTokenRequest_from_urlencoded self (request ctx) = Inr raw \<and>
          u_load_cdb self ctx None s0 = (Inr client, s0a) \<and>
          u_load_session self (Msg raw) Token http_info s0a = (Inr (), s0b) \<and>
          u_parse_request self Token ctx (Some http_info) s0b = (Inr parse_req, s) \<longrightarrow>
          token_endpoint self ctx s0 =
            (Inr (JsonResponse
                   (PDict [(''error'', PStr ''unauthorized_client''),
                           (''error_description'', PStr (str_exn err))])
                   (Some ''400'')),
             s1\<lparr>sman := []\<rparr>))"
proof -
  have p: "u_process_request self endpoint ctx parse_req http_info s =
           (Inr (ProcJson (JsonResponse
                   (PDict [(''error'', PStr ''unauthorized_client''),
                           (''error_description'', PStr (str_exn err))])
                   (Some ''400''))),
            s1\<lparr>sman := []\<rparr>)"
    using process_request_raises [OF assms(2,3), of ctx] assms(1)
    by (simp add: error_body_def)
  have "token_endpoint self ctx s0 =
            (Inr (JsonResponse
                   (PDict [(''error'', PStr ''unauthorized_client''),
                           (''error_description'', PStr (str_exn err))])
                   (Some ''400'')),
             s1\<lparr>sman := []\<rparr>)"
    if "endpoint = Token" "http_info = u_get_http_headers ctx"
      "AccessTokenRequest_from_urlencoded self (request ctx) = Inr raw"
      "u_load_cdb self ctx None s0 = (Inr client, s0a)"
      "u_load_session self (Msg raw) Token http_info s0a = (Inr (), s0b)"
      "u_parse_request self Token ctx (Some http_info) s0b = (Inr parse_req, s)"
    using that p
    by (simp add: token_endpoint_def Let_def seq_def lift_def send_response_def return_def
        u_flush_endpoint_context_memory_def)
  with p show ?thesis by blast
qed

theorem client_errors_unauthorized_client_witness:
  "token_endpoint
     (stub_frontend\<lparr>endpoint_process_request :=
        (\<lambda>ep pr hi s. (Inl (UnknownClient ''unknown client rp2''), s))\<rparr>)
     stub_context stub_app =
   (Inr (JsonResponse
          (PDict [(''error'', PStr ''unauthorized_client''),
                  (''error_description'', PStr ''unknown client rp2'')])
          (Some ''400'')),
    stub_app\<lparr>cdb := [(''rp2'', PDict [(''client_id'', PStr ''rp2''), (''client_name'', PStr ''RP'')])]\<rparr>)"
proof -
  let ?self = "stub_frontend\<lparr>endpoint_process_request :=
        (\<lambda>ep pr hi s. (Inl (UnknownClient ''unknown client rp2''), s))\<rparr>"
  let ?client = "PDict [(''client_id'', PStr ''rp2''), (''client_name'', PStr ''RP'')]"
  let ?s1 = "stub_app\<lparr>cdb := [(''rp2'', ?client)]\<rparr>"
  let ?s2 = "?s1\<lparr>sman := [(''sid1'', grant_entry)]\<rparr>"
  let ?hi = "u_get_http_headers stub_context"
  let ?pr = "Msg (request_dict (request stub_context))"
  have a: "is_client_error (UnknownClient ''unknown client rp2'')" by simp
  have b: "if Token = Token then AccessTokenRequest ?self ?pr = Inr ?pr else ?pr = ?pr"
    by (simp add: stub_frontend_def)
  have c: "endpoint_process_request ?self Token ?pr ?hi ?s2 =
      (Inl (UnknownClient ''unknown client rp2''), ?s2)"
    by (simp add: stub_frontend_def)
  have d: "AccessTokenRequest_from_urlencoded ?self (request stub_context) =
      Inr (request_dict (request stub_context))"
    by (simp add: stub_frontend_def)
  have e: "u_load_cdb ?self stub_context None stub_app = (Inr ?client, ?s1)"
    by (simp add: u_load_cdb_def Let_def seq_def stub_frontend_def stub_context_def)
  have f: "u_load_session ?self (Msg (request_dict (request stub_context))) Token ?hi ?s1 =
      (Inr (), ?s2)"
    by (simp add: u_load_session_def load_session_from_db_def seq_def return_def
        u_flush_endpoint_context_memory_def stub_frontend_def dict_get_def stub_app_def)
  have g: "u_parse_request ?self Token stub_context (Some ?hi) ?s2 = (Inr ?pr, ?s2)"
    by (simp add: u_parse_request_def Let_def stub_frontend_def)
  from client_errors_unauthorized_client [OF a b c, of stub_context
      "request_dict (request stub_context)" stub_app ?client ?s1] d e f g
  show ?thesis by (simp add: stub_app_def)
qed

text \<open>
  C4 as stated fails: a token request without \<open>client_id\<close> fails in
  \<^verbatim>\<open>_load_cdb\<close> with \<^verbatim>\<open>InvalidClient\<close>, which no method catches; the token
  endpoint raises it and returns no response.
\<close>

theorem token_invalid_client_uncaught_counterexample:
  "token_endpoint stub_frontend
     (stub_context\<lparr>request := [(''grant_type'', ''authorization_code''), (''code'', ''c1'')]\<rparr>)
     stub_app =
   (Inl (InvalidClient ''Client None not found!''), stub_app\<lparr>cdb := []\<rparr>)"
  by (simp add: token_endpoint_def Let_def seq_def lift_def u_load_cdb_def
      stub_frontend_def stub_context_def)

lemma load_cdb_no_client_id:
  assumes "map_of (request ctx) ''client_id'' = None \<or> map_of (request ctx) ''client_id'' = Some []"
  shows "u_load_cdb self ctx None s =
           (Inl (InvalidClient
                  (''Client '' @
                   (case map_of (request ctx) ''client_id'' of None \<Rightarrow> ''None'' | Some c \<Rightarrow> c) @
                   '' not found!'')),
            s\<lparr>cdb := []\<rparr>)"
  using assms by (auto simp: u_load_cdb_def Let_def)

lemma token_endpoint_returns_error:
  assumes "AccessTokenRequest_from_urlencoded self (request ctx) = Inr raw"
    and "u_load_cdb self ctx None sa = (Inr client, sb)"
    and "u_load_session self (Msg raw) Token (u_get_http_headers ctx) sb = (Inr (), sc)"
    and "u_parse_request self Token ctx (Some (u_get_http_headers ctx)) sc = (Inr parse_req, s)"
    and "u_process_request self Token ctx parse_req (u_get_http_headers ctx) s =
           (Inr (ProcJson r), t)"
  shows "token_endpoint self ctx sa = (Inr r, t\<lparr>sman := []\<rparr>)"
  using assms
  by (simp add: token_endpoint_def Let_def seq_def lift_def send_response_def return_def
      u_flush_endpoint_context_memory_def)

lemma userinfo_endpoint_returns_error:
  assumes "u_load_session self (Msg []) Userinfo (u_get_http_headers ctx) sa = (Inr (), sb)"
    and "u_parse_request self Userinfo ctx (Some (u_get_http_headers ctx)) sb = (Inr parse_req, sc)"
    and "find_grant_sid (sman sc) = Inr sid"
    and "(case sid of Some k \<Rightarrow> storage_get_claims_from_sid self k | None \<Rightarrow> return []) sc =
           (Inr claims, sd)"
    and "u_process_request self Userinfo ctx parse_req (u_get_http_headers ctx)
           (sd\<lparr>userinfo := claims\<rparr>) = (Inr (ProcJson r), t)"
  shows "userinfo_endpoint self ctx sa = (Inr r, t\<lparr>userinfo := [], sman := []\<rparr>)"
  using assms
  by (simp add: userinfo_endpoint_def Let_def seq_def lift_def send_response_def return_def
      u_flush_endpoint_context_memory_def)

lemma authorization_endpoint_returns_error:
  assumes "u_load_cdb self ctx None sa = (Inr client, sb)"
    and "u_load_cdb self ctx None sb = (Inr client', sc)"
    and "u_parse_request self Authorization ctx (Some (u_get_http_headers ctx)) sc =
           (Inr (Msg m), sd)"
    and "u_load_session self (Msg m) Authorization (u_get_http_headers ctx) sd = (Inr (), s)"
    and "u_process_request self Authorization ctx (Msg m) (u_get_http_headers ctx) s =
           (Inr (ProcJson r), t)"
  shows "authorization_endpoint self ctx sa = (Inr r, t\<lparr>sman := []\<rparr>)"
  using assms
  by (simp add: authorization_endpoint_def u_handle_authn_request_def Let_def seq_def
      send_response_def return_def u_flush_endpoint_context_memory_def)

text \<open>
  C5, as the code has it. A token request that cannot be built into an
  \<^verbatim>\<open>AccessTokenRequest\<close>, and any request on which the endpoint's
  \<^verbatim>\<open>process_request\<close> raises another exception than the three client errors,
  gets from \<^verbatim>\<open>_process_request\<close> a \<^verbatim>\<open>JsonResponse\<close> with status 400 whose
  body has \<open>error\<close> equal to \<open>invalid_request\<close>; and the token endpoint, the
  userinfo endpoint and the authorization endpoint return that response to the caller,
  once the steps each takes before \<^verbatim>\<open>_process_request\<close> have succeeded. A request
  with no \<open>client_id\<close>, or an empty one, makes the authorization endpoint and the
  token endpoint raise the \<^verbatim>\<open>InvalidClient\<close> of \<^verbatim>\<open>_load_cdb\<close> and return
  no response.
\<close>

theorem invalid_request_errors:
  "(((endpoint = Token \<and> AccessTokenRequest self parse_req = Inl err \<and> t = s) \<or>
    ((if endpoint = Token then AccessTokenRequest self parse_req = Inr req else req = parse_req) \<and>
     endpoint_process_request self endpoint req http_info s = (Inl err, t) \<and>
     \<not> is_client_error err)) \<and>
   r = JsonResponse (PDict [(''error'', PStr ''invalid_request''),
                            (''error_description'', PStr (str_exn err))]) (Some ''400'') \<longrightarrow>
     u_process_request self endpoint ctx parse_req http_info s =
       (Inr (ProcJson r), t\<lparr>sman := []\<rparr>) \<and>
     (endpoint = Token \<and> http_info = u_get_http_headers ctx \<and>
      AccessTokenRequest_from_urlencoded self (request ctx) = Inr raw \<and>
      u_load_cdb self ctx None sa = (Inr client, sb) \<and>
      u_load_session self (Msg raw) Token http_info sb = (Inr (), sc) \<and>
      u_parse_request self Token ctx (Some http_info) sc = (Inr parse_req, s) \<longrightarrow>
        token_endpoint self ctx sa = (Inr r, t\<lparr>sman := []\<rparr>)) \<and>
     (endpoint = Userinfo \<and> http_info = u_get_http_headers ctx \<and>
      u_load_session self (Msg []) Userinfo http_info sa = (Inr (), sb) \<and>
      u_parse_request self Userinfo ctx (Some http_info) sb = (Inr parse_req, sc) \<and>
      find_grant_sid (sman sc) = Inr sid \<and>
      (case sid of Some k \<Rightarrow> storage_get_claims_from_sid self k | None \<Rightarrow> return []) sc =
        (Inr claims, sd) \<and>
      s = sd\<lparr>userinfo := claims\<rparr> \<longrightarrow>
        userinfo_endpoint self ctx sa = (Inr r, t\<lparr>userinfo := [], sman := []\<rparr>)) \<and>
     (endpoint = Authorization \<and> http_info = u_get_http_headers ctx \<and>
      u_load_cdb self ctx None sa = (Inr client, sb) \<and>
      u_load_cdb self ctx None sb = (Inr client', sc) \<and>
      u_parse_request self Authorization ctx (Some http_info) sc = (Inr parse_req, sd) \<and>
      (\<exists>m. parse_req = Msg m) \<and>
      u_load_session self parse_req Authorization http_info sd = (Inr (), s) \<longrightarrow>
        authorization_endpoint self ctx sa = (Inr r, t\<lparr>sman := []\<rparr>))) \<and>
   (map_of (request ctx) ''client_id'' = None \<or> map_of (request ctx) ''client_id'' = Some [] \<longrightarrow>
      authorization_endpoint self ctx sa =
        (Inl (InvalidClient
               (''Client '' @
                (case map_of (request ctx) ''client_id'' of None \<Rightarrow> ''None'' | Some c \<Rightarrow> c) @
                '' not found!'')),
         sa\<lparr>cdb := []\<rparr>) \<and>
      (AccessTokenRequest_from_urlencoded self (request ctx) = Inr raw \<longrightarrow>
         token_endpoint self ctx sa =
           (Inl (InvalidClient
                  (''Client '' @
                   (case map_of (request ctx) ''client_id'' of None \<Rightarrow> ''None'' | Some c \<Rightarrow> c) @
                   '' not found!'')),
            sa\<lparr>cdb := []\<rparr>)))"
  (is "(?H \<longrightarrow> ?P \<and> (?T \<longrightarrow> ?TG) \<and> (?U \<longrightarrow> ?UG) \<and> (?A \<longrightarrow> ?AG)) \<and>
       (?N \<longrightarrow> ?Q \<and> (?R \<longrightarrow> ?RG))")
proof -
  have p: ?P if h: ?H
  proof -
    from h consider
      (build) "endpoint = Token" "AccessTokenRequest self parse_req = Inl err" "t = s"
      | (process)
        "if endpoint = Token then AccessTokenRequest self parse_req = Inr req else req = parse_req"
        "endpoint_process_request self endpoint req http_info s = (Inl err, t)"
        "\<not> is_client_error err"
      by blast
    then show ?thesis
    proof cases
      case build
      with h show ?thesis
        by (simp add: u_process_request_def send_response_def seq_def return_def
            u_flush_endpoint_context_memory_def error_body_def)
    next
      case process
      from process_request_raises [OF process(1,2), of ctx] process(3) h show ?thesis
        by (simp add: error_body_def)
    qed
  qed
  have tok: ?TG if ?H and ?T
    using p [OF that(1)] that(2)
      token_endpoint_returns_error [of self ctx raw sa client sb sc parse_req s r
        "t\<lparr>sman := []\<rparr>"]
    by (elim conjE) simp
  have ui: ?UG if ?H and ?U
    using p [OF that(1)] that(2)
      userinfo_endpoint_returns_error [of self ctx sa sb parse_req sc sid claims sd r
        "t\<lparr>sman := []\<rparr>"]
    by (elim conjE) simp
  have az: ?AG if ?H and ?A
    using p [OF that(1)] that(2)
      authorization_endpoint_returns_error [of self ctx sa client sb client' sc _ sd s r
        "t\<lparr>sman := []\<rparr>"]
    by (elim conjE exE) simp
  have q: ?Q if n: ?N
    using load_cdb_no_client_id [OF n, of self sa]
    by (simp add: authorization_endpoint_def seq_def)
  have rg: ?RG if n: ?N and ?R
    using load_cdb_no_client_id [OF n, of self sa] that(2)
    by (simp add: token_endpoint_def Let_def seq_def lift_def)
  show ?thesis
  proof (intro conjI impI)
    assume ?H then show ?P by (rule p)
  next
    assume ?H and ?T then show ?TG by (rule tok)
  next
    assume ?H and ?U then show ?UG by (rule ui)
  next
    assume ?H and ?A then show ?AG by (rule az)
  next
    assume ?N then show ?Q by (rule q)
  next
    assume ?N and ?R then show ?RG by (rule rg)
  qed
qed

theorem invalid_request_errors_witness:
  "token_endpoint
     (stub_frontend\<lparr>AccessTokenRequest := (\<lambda>pr. Inl (TypeError ''not a mapping''))\<rparr>)
     stub_context stub_app =
   (Inr (JsonResponse
          (PDict [(''error'', PStr ''invalid_request''),
                  (''error_description'', PStr ''not a mapping'')])
          (Some ''400'')),
    stub_app\<lparr>cdb := [(''rp2'', PDict [(''client_id'', PStr ''rp2''), (''client_name'', PStr ''RP'')])]\<rparr>) \<and>
   token_endpoint stub_frontend
     (stub_context\<lparr>request := [(''grant_type'', ''authorization_code'')]\<rparr>) stub_app =
   (Inl (InvalidClient ''Client None not found!''), stub_app\<lparr>cdb := []\<rparr>)"
proof -
  let ?self = "stub_frontend\<lparr>AccessTokenRequest := (\<lambda>pr. Inl (TypeError ''not a mapping''))\<rparr>"
  let ?client = "PDict [(''client_id'', PStr ''rp2''), (''client_name'', PStr ''RP'')]"
  let ?sb = "stub_app\<lparr>cdb := [(''rp2'', ?client)]\<rparr>"
  let ?sc = "?sb\<lparr>sman := [(''sid1'', grant_entry)]\<rparr>"
  let ?hi = "u_get_http_headers stub_context"
  let ?pr = "Msg (request_dict (request stub_context))"
  let ?r = "JsonResponse
          (PDict [(''error'', PStr ''invalid_request''),
                  (''error_description'', PStr (str_exn (TypeError ''not a mapping'')))])
          (Some ''400'')"
  let ?ctx = "stub_context\<lparr>request := [(''grant_type'', ''authorization_code'')]\<rparr>"
  have a: "AccessTokenRequest ?self ?pr = Inl (TypeError ''not a mapping'')"
    by (simp add: stub_frontend_def)
  have d: "AccessTokenRequest_from_urlencoded ?self (request stub_context) =
      Inr (request_dict (request stub_context))"
    by (simp add: stub_frontend_def)
  have e: "u_load_cdb ?self stub_context None stub_app = (Inr ?client, ?sb)"
    by (simp add: u_load_cdb_def Let_def seq_def stub_frontend_def stub_context_def)
  have f: "u_load_session ?self (Msg (request_dict (request stub_context))) Token ?hi ?sb =
      (Inr (), ?sc)"
    by (simp add: u_load_session_def load_session_from_db_def seq_def return_def
        u_flush_endpoint_context_memory_def stub_frontend_def dict_get_def stub_app_def)
  have g: "u_parse_request ?self Token stub_context (Some ?hi) ?sc = (Inr ?pr, ?sc)"
    by (simp add: u_parse_request_def Let_def stub_frontend_def)
  have i: "token_endpoint ?self stub_context stub_app = (Inr ?r, ?sc\<lparr>sman := []\<rparr>)"
    using invalid_request_errors [where endpoint = Token and self = ?self and parse_req = ?pr
        and err = "TypeError ''not a mapping''" and t = ?sc and s = ?sc and r = ?r
        and ctx = stub_context and http_info = ?hi
        and raw = "request_dict (request stub_context)" and sa = stub_app
        and client = ?client and sb = ?sb and sc = ?sc
        and req = "Msg []" and sid = None and claims = "[]" and sd = stub_app
        and client' = PNone]
      a d e f g
    by simp
  have n: "map_of (request ?ctx) ''client_id'' = None"
    by simp
  have j: "token_endpoint stub_frontend ?ctx stub_app =
      (Inl (InvalidClient ''Client None not found!''), stub_app\<lparr>cdb := []\<rparr>)"
    using invalid_request_errors [where endpoint = Token and self = stub_frontend
        and parse_req = "Msg []"
        and err = "TypeError ''not a mapping''" and t = stub_app and s = stub_app and r = ?r
        and ctx = ?ctx and http_info = "[]"
        and raw = "request_dict (request ?ctx)" and sa = stub_app
        and client = PNone and sb = stub_app and sc = stub_app
        and req = "Msg []" and sid = None and claims = "[]" and sd = stub_app
        and client' = PNone]
      n
    by (simp add: stub_frontend_def)
  from i j show ?thesis by (simp add: stub_app_def)
qed

text \<open>
  C5 as stated fails: an authorization request without its required parameter
  \<open>client_id\<close> gets no response with \<open>invalid_request\<close>; the authorization endpoint
  raises the \<^verbatim>\<open>InvalidClient\<close> of \<^verbatim>\<open>_load_cdb\<close>.
\<close>

theorem authorization_missing_client_id_counterexample:
  "authorization_endpoint stub_frontend
     (stub_context\<lparr>request := [(''response_type'', ''code''), (''scope'', ''openid'')]\<rparr>)
     stub_app =
   (Inl (InvalidClient ''Client None not found!''), stub_app\<lparr>cdb := []\<rparr>)"
  by (simp add: authorization_endpoint_def Let_def seq_def u_load_cdb_def
      stub_frontend_def stub_context_def)

subsection \<open>The shape of error responses\<close>

text \<open>
  C3, as the code has it. Every exception raised while \<^verbatim>\<open>_process_request\<close>
  builds the token request or while the endpoint processes the request is caught there
  and returned as a \<^verbatim>\<open>JsonResponse\<close> with status 400 whose body holds the fields
  \<open>error\<close> and \<open>error_description\<close>, the latter the text of the exception; with
  no exception, what the endpoint returned is passed on. \<^verbatim>\<open>handle_error\<close> returns
  a \<^verbatim>\<open>JsonResponse\<close> with the status it was given whose body is the message, a
  string, which has neither field.
\<close>

theorem error_response_shapes:
  "(endpoint = Token \<and> AccessTokenRequest self parse_req = Inl err \<longrightarrow>
      u_process_request self endpoint ctx parse_req http_info s =
        (Inr (ProcJson (JsonResponse
                (PDict [(''error'', PStr ''invalid_request''),
                        (''error_description'', PStr (str_exn err))])
                (Some ''400''))),
         s\<lparr>sman := []\<rparr>)) \<and>
   ((if endpoint = Token then AccessTokenRequest self parse_req = Inr req else req = parse_req) \<and>
    endpoint_process_request self endpoint req http_info s = (Inl err, t) \<longrightarrow>
      u_process_request self endpoint ctx parse_req http_info s =
        (Inr (ProcJson (JsonResponse
                (PDict [(''error'', PStr (if is_client_error err then ''unauthorized_client''
                                          else ''invalid_request'')),
                        (''error_description'', PStr (str_exn err))])
                (Some ''400''))),
         t\<lparr>sman := []\<rparr>)) \<and>
   ((if endpoint = Token then AccessTokenRequest self parse_req = Inr req else req = parse_req) \<and>
    endpoint_process_request self endpoint req http_info s = (Inr proc_req, t) \<longrightarrow>
      u_process_request self endpoint ctx parse_req http_info s = (Inr (ProcArgs proc_req), t)) \<and>
   json_error_fields
     (JsonResponse (PDict [(''error'', PStr code), (''error_description'', PStr descr)])
        (Some ''400'')) \<and>
   handle_error msg excp status s =
     (Inr (JsonResponse
            (PStr (case msg of
                     Some m \<Rightarrow>
                       if m \<noteq> [] then m
                       else ''Something went wrong ... '' @
                            (case excp of None \<Rightarrow> [] | Some e \<Rightarrow> str_exn e)
                   | None \<Rightarrow>
                       ''Something went wrong ... '' @
                       (case excp of None \<Rightarrow> [] | Some e \<Rightarrow> str_exn e)))
            (Some status)),
      s\<lparr>sman := []\<rparr>) \<and>
   \<not> json_error_fields (JsonResponse (PStr text) (Some status))"
proof -
  have a: "u_process_request self endpoint ctx parse_req http_info s =
        (Inr (ProcJson (JsonResponse
                (PDict [(''error'', PStr ''invalid_request''),
                        (''error_description'', PStr (str_exn err))])
                (Some ''400''))),
         s\<lparr>sman := []\<rparr>)"
    if "endpoint = Token" "AccessTokenRequest self parse_req = Inl err"
    using that
    by (simp add: u_process_request_def send_response_def seq_def return_def
        u_flush_endpoint_context_memory_def error_body_def)
  have b: "u_process_request self endpoint ctx parse_req http_info s =
        (Inr (ProcJson (JsonResponse
                (PDict [(''error'', PStr (if is_client_error err then ''unauthorized_client''
                                          else ''invalid_request'')),
                        (''error_description'', PStr (str_exn err))])
                (Some ''400''))),
         t\<lparr>sman := []\<rparr>)"
    if "if endpoint = Token then AccessTokenRequest self parse_req = Inr req else req = parse_req"
      "endpoint_process_request self endpoint req http_info s = (Inl err, t)"
    using process_request_raises [OF that, of ctx]
    by (simp add: error_body_def)
  have c: "u_process_request self endpoint ctx parse_req http_info s = (Inr (ProcArgs proc_req), t)"
    if "if endpoint = Token then AccessTokenRequest self parse_req = Inr req else req = parse_req"
      "endpoint_process_request self endpoint req http_info s = (Inr proc_req, t)"
    using that
    by (auto simp: u_process_request_def split: if_splits)
  have d: "handle_error msg excp status s =
     (Inr (JsonResponse
            (PStr (case msg of
                     Some m \<Rightarrow>
                       if m \<noteq> [] then m
                       else ''Something went wrong ... '' @
                            (case excp of None \<Rightarrow> [] | Some e \<Rightarrow> str_exn e)
                   | None \<Rightarrow>
                       ''Something went wrong ... '' @
                       (case excp of None \<Rightarrow> [] | Some e \<Rightarrow> str_exn e)))
            (Some status)),
      s\<lparr>sman := []\<rparr>)"
    by (simp add: handle_error_def Let_def send_response_def seq_def return_def
        u_flush_endpoint_context_memory_def split: option.splits)
  have e: "json_error_fields
     (JsonResponse (PDict [(''error'', PStr code), (''error_description'', PStr descr)])
        (Some ''400''))"
    by simp
  have f: "\<not> json_error_fields (JsonResponse (PStr text) (Some status))"
    by simp
  from a b c d e f show ?thesis by blast
qed

theorem error_response_shapes_witness:
  "u_process_request
     (stub_frontend\<lparr>endpoint_process_request :=
        (\<lambda>ep pr hi s. (Inl (ValueError ''missing code''), s))\<rparr>)
     Userinfo stub_context (Msg []) [] stub_app =
     (Inr (ProcJson (JsonResponse
             (PDict [(''error'', PStr ''invalid_request''),
                     (''error_description'', PStr ''missing code'')])
             (Some ''400''))),
      stub_app) \<and>
   u_process_request
     (stub_frontend\<lparr>AccessTokenRequest := (\<lambda>pr. Inl (TypeError ''not a mapping''))\<rparr>)
     Token stub_context (Msg []) [] stub_app =
     (Inr (ProcJson (JsonResponse
             (PDict [(''error'', PStr ''invalid_request''),
                     (''error_description'', PStr ''not a mapping'')])
             (Some ''400''))),
      stub_app) \<and>
   handle_error None (Some (ValueError ''boom'')) ''403'' stub_app =
     (Inr (JsonResponse (PStr ''Something went wrong ... boom'') (Some ''403'')), stub_app)"
  using error_response_shapes [where
      self = "stub_frontend\<lparr>endpoint_process_request :=
        (\<lambda>ep pr hi s. (Inl (ValueError ''missing code''), s))\<rparr>"
      and endpoint = Userinfo and ctx = stub_context and parse_req = "Msg []"
      and http_info = "[]" and s = stub_app and req = "Msg []"
      and err = "ValueError ''missing code''" and t = stub_app
      and msg = None and excp = "Some (ValueError ''boom'')" and status = "''403''"]
    error_response_shapes [where
      self = "stub_frontend\<lparr>AccessTokenRequest := (\<lambda>pr. Inl (TypeError ''not a mapping''))\<rparr>"
      and endpoint = Token and ctx = stub_context and parse_req = "Msg []"
      and http_info = "[]" and s = stub_app
      and err = "TypeError ''not a mapping''"]
  by (simp add: stub_frontend_def stub_app_def)

text \<open>
  C3 as stated fails: the response \<^verbatim>\<open>handle_error\<close> returns for an exception has
  a string as its body, with no field \<open>error\<close> or \<open>error_description\<close>.
\<close>

theorem handle_error_body_counterexample:
  "fst (handle_error None (Some (ValueError ''boom'')) ''403'' stub_app) =
     Inr (JsonResponse (PStr ''Something went wrong ... boom'') (Some ''403'')) \<and>
   \<not> json_error_fields (JsonResponse (PStr ''Something went wrong ... boom'') (Some ''403''))"
  by (simp add: handle_error_def Let_def send_response_def seq_def return_def
        u_flush_endpoint_context_memory_def)


text \<open>
  The \<^verbatim>\<open>except\<close> branch of \<^verbatim>\<open>_handle_authn_request\<close> on a concrete request:
  \<^verbatim>\<open>do_response\<close> raises, \<^verbatim>\<open>handle_error\<close> flushes the session manager, and
  the method still returns the internal request.
\<close>

lemma handle_authn_request_drops_error:
  "\<exists>d c. u_handle_authn_request
            (stub_frontend\<lparr>endpoint_do_response :=
               (\<lambda>ep pr a s. (Inl (ValueError ''boom''), s))\<rparr>)
            stub_context Authorization stub_app =
          (Inr (Internal d c),
           stub_app\<lparr>cdb := [(''rp2'', PDict [(''client_id'', PStr ''rp2''),
                                                (''client_name'', PStr ''RP'')])]\<rparr>)"
  by (simp add: u_handle_authn_request_def handle_error_def
      Let_def seq_def lift_def return_def send_response_def
      u_flush_endpoint_context_memory_def u_load_cdb_def u_load_session_def
      load_session_from_db_def u_parse_request_def
      u_process_request_def dict_item_def dict_get_def request_dict_def
      stub_frontend_def stub_context_def stub_app_def)

subsection \<open>Flushing the session manager\<close>











end
